theory Spec2Isabelle
  imports Complex_Main "HOL-Library.Sublist" "HOL-Library.Word"
begin

section \<open>Text primitives\<close>

text \<open>
  A Python string is the list of its Unicode code points, each the integer that \<open>ord\<close>
  gives. The string constants of the source are written as HOL strings and turned into
  code points by \<open>codes\<close>. Single characters appear by number: 9 tab, 10 line feed,
  13 carriage return, 32 space, 34 quotation mark, 42 asterisk, 43 plus, 44 comma,
  45 minus, 46 full stop, 58 colon, 91 and 93 square brackets, 92 backslash,
  96 backquote, 123 and 125 braces, 124 vertical bar.
\<close>

type_synonym code_point = int

type_synonym ustr = "code_point list"

definition codes :: "string \<Rightarrow> ustr" where
  "codes s = map of_char s"

text \<open>
  \<open>str.upper\<close> maps each code point on its own to one or more code points. On ASCII it
  turns the letters a to z into A to Z and changes nothing else. Beyond ASCII the mapping
  is the Unicode table of the library, a parameter here (\<open>unicode_upper\<close>): it may
  lengthen the string and may produce ASCII letters, as the sharp s (223) does with
  \<open>SS\<close>.
\<close>

definition upper_code :: "(code_point \<Rightarrow> ustr) \<Rightarrow> code_point \<Rightarrow> ustr" where
  "upper_code unicode_upper c =
     (if c < 128 then [if 97 \<le> c \<and> c \<le> 122 then c - 32 else c] else unicode_upper c)"

definition upper :: "(code_point \<Rightarrow> ustr) \<Rightarrow> ustr \<Rightarrow> ustr" where
  "upper unicode_upper s = concat (map (upper_code unicode_upper) s)"

text \<open>\<open>needle in haystack\<close>: literal substring search, scanning the start positions.\<close>

fun str_find :: "'a list \<Rightarrow> 'a list \<Rightarrow> bool" where
  "str_find p [] = (p = [])"
| "str_find p (c # s) = (prefix p (c # s) \<or> str_find p s)"

text \<open>
  The code points that \<open>str.strip\<close> and \<open>str.rstrip\<close> remove (\<open>str.isspace\<close>): the
  ASCII white space and separators 9 to 13 and 28 to 32, 133, 160, 5760, 8192 to 8202,
  8232, 8233, 8239, 8287 and 12288.
\<close>

definition is_space :: "code_point \<Rightarrow> bool" where
  "is_space c =
     ((9 \<le> c \<and> c \<le> 13) \<or> (28 \<le> c \<and> c \<le> 32) \<or> c = 133 \<or> c = 160 \<or> c = 5760
      \<or> (8192 \<le> c \<and> c \<le> 8202) \<or> c = 8232 \<or> c = 8233 \<or> c = 8239 \<or> c = 8287
      \<or> c = 12288)"

definition rstrip :: "ustr \<Rightarrow> ustr" where
  "rstrip s = rev (dropWhile is_space (rev s))"

definition strip :: "ustr \<Rightarrow> ustr" where
  "strip s = rstrip (dropWhile is_space s)"

text \<open>\<open>s.split(sep)\<close> for a one-character separator, and \<open>"\n".join(lines)\<close>.\<close>

fun split_on :: "'a \<Rightarrow> 'a list \<Rightarrow> 'a list list" where
  "split_on sep [] = [[]]"
| "split_on sep (c # s) =
     (if c = sep then [] # split_on sep s
      else (case split_on sep s of [] \<Rightarrow> [[c]] | a # as \<Rightarrow> (c # a) # as))"


section \<open>Regular expressions of the rule tables\<close>

text \<open>
  \<open>Series.str.contains(pat)\<close> searches with \<open>re.search\<close> unless \<open>regex=False\<close> is
  passed. The patterns of the rule tables use four constructs beyond literal characters:
  the full stop (any character but a line feed), a postfix asterisk or plus on the
  preceding character, and the vertical bar between alternatives. The compiler below
  covers exactly these.
\<close>

datatype re_atom = Lit code_point | Dot

datatype re_item = Once re_atom | Star re_atom | Plus re_atom

definition atom_of :: "code_point \<Rightarrow> re_atom" where
  "atom_of c = (if c = 46 then Dot else Lit c)"

fun compile_seq :: "ustr \<Rightarrow> re_item list" where
  "compile_seq [] = []"
| "compile_seq [c] = [Once (atom_of c)]"
| "compile_seq (c # q # rest) =
     (if q = 42 then Star (atom_of c) # compile_seq rest
      else if q = 43 then Plus (atom_of c) # compile_seq rest
      else Once (atom_of c) # compile_seq (q # rest))"

definition re_compile :: "ustr \<Rightarrow> re_item list list" where
  "re_compile pat = map compile_seq (split_on 124 pat)"

fun atom_ok :: "re_atom \<Rightarrow> code_point \<Rightarrow> bool" where
  "atom_ok (Lit a) c = (c = a)"
| "atom_ok Dot c = (c \<noteq> 10)"

text \<open>Does the item sequence match a prefix of the text?\<close>

fun match_here :: "re_item list \<Rightarrow> ustr \<Rightarrow> bool" where
  "match_here [] s = True"
| "match_here (Once a # r) [] = False"
| "match_here (Once a # r) (c # s) = (atom_ok a c \<and> match_here r s)"
| "match_here (Plus a # r) [] = False"
| "match_here (Plus a # r) (c # s) = (atom_ok a c \<and> match_here (Star a # r) s)"
| "match_here (Star a # r) [] = match_here r []"
| "match_here (Star a # r) (c # s) =
     (match_here r (c # s) \<or> (atom_ok a c \<and> match_here (Star a # r) s))"

fun search_seq :: "re_item list \<Rightarrow> ustr \<Rightarrow> bool" where
  "search_seq r [] = match_here r []"
| "search_seq r (c # s) = (match_here r (c # s) \<or> search_seq r s)"

definition re_search :: "ustr \<Rightarrow> ustr \<Rightarrow> bool" where
  "re_search pat s = list_ex (\<lambda>r. search_seq r s) (re_compile pat)"

text \<open>
  \<open>Series.str.contains(pat, na=False, regex=...)\<close> on one cell: a missing cell (NaN)
  gives \<open>False\<close>.
\<close>

definition str_contains :: "ustr \<Rightarrow> bool \<Rightarrow> ustr option \<Rightarrow> bool" where
  "str_contains pat regex cell =
     (case cell of
        None \<Rightarrow> False
      | Some s \<Rightarrow> if regex then re_search pat s else str_find pat s)"

section \<open>Transactions\<close>

text \<open>
  One row of the merged frame. A cell that pandas holds as NaN is \<open>None\<close>. The
  \<open>label\<close> column does not exist before \<open>apply_labels\<close> creates it; a row that has
  none yet carries \<open>None\<close> there. Amounts are the real numbers that the float cells
  denote: the engine only compares them with 30.
\<close>

record txn =
  date :: ustr
  description :: "ustr option"
  amount :: "real option"
  category :: "ustr option"
  card :: ustr
  source :: ustr
  label :: "ustr option"

type_synonym frame = "txn list"

section \<open>Rule tables of \<open>apply_labels\<close>\<close>

definition vending_patterns :: "string list" where
  \<open>vending_patterns =
    [''AMK MSU POD UNION'',
     ''AMK MSU POD'',
     ''AMK POD'',
     ''AMK MSU EINSTEINS'',
     ''AMK MSU GRIFFIS'',
     ''AMK MSU PANDA'',
     ''CTLP*REFRESHMENTS INC'',
     ''CTLP*REFRESH'',
     ''COCA COLA CLARK STARKVIL'',
     ''COCA COLA CLARK STARKV'',
     ''COCA COLA SOUTH METRO'',
     ''CTLP*GREENSBORO VENDIN'',
     ''365 MARKET K'']\<close>

definition gas_station_patterns :: "string list" where
  \<open>gas_station_patterns =
    [''SHELL'',
     ''LOVE'S'',
     ''LOVE S'',
     ''BUC-EE'',
     ''BUCEE'',
     ''EXXON'',
     ''CHEVRON'',
     ''MARATHON'',
     ''MURPHY'',
     ''QT '',
     ''QUIKTRIP'',
     ''PILOT'',
     ''CIRCLE K'',
     ''SPRINT MART'',
     ''76 - DEES'',
     ''76 DEES'',
     ''TEXACO'',
     ''BP#'',
     ''ON THE WAY'']\<close>

definition walmart_patterns :: "string list" where
  \<open>walmart_patterns =
    [''WALMART'',
     ''WAL-MART'',
     ''WM SUPERCENTER'',
     ''WALMART.COM'']\<close>

definition books_patterns :: "(string list \<times> string) list" where
  \<open>books_patterns =
    [([''KINDLE''], ''Books (Kindle)''),
     ([''MCNALLY JACKSON''], ''Books'')]\<close>

definition streaming_labels :: "(string list \<times> string) list" where
  \<open>streaming_labels =
    [([''NETFLIX''], ''Netflix''),
     ([''DISNEY PLUS'', ''DISNEY+''], ''Disney+''),
     ([''YOUTUBE''], ''YouTube Premium''),
     ([''GOOGLE *ONE'', ''GOOGLE ONE''], ''Google One''),
     ([''HINGE''], ''Hinge''),
     ([''APPLE.COM''], ''Apple'')]\<close>

definition pro_services_labels :: "(string list \<times> string) list" where
  \<open>pro_services_labels =
    [([''LINKEDIN''], ''LinkedIn Premium''),
     ([''STP*V*RESUME'', ''RESUMEEXAMPLE'', ''RESUME-EXAMPLE''], ''Resume Services''),
     ([''ATLYS''], ''Visa Services (Atlys)''),
     ([''MSDPS''], ''DMV/DPS'')]\<close>

definition api_labels :: "(string list \<times> string) list" where
  \<open>api_labels =
    [([''GOOGLE *CLOUD'', ''GOOGLE CLOUD''], ''API Costs (Google Cloud)''),
     ([''GOOGLE COLAB'', ''COLAB''], ''API Costs (Google Colab)''),
     ([''AWS'', ''AMAZON WEB SERVICES''], ''API Costs (AWS)''),
     ([''ELEVENLABS'', ''ELEVEN LABS''], ''API Costs (ElevenLabs)'')]\<close>

definition transport_labels :: "(string list \<times> string) list" where
  \<open>transport_labels =
    [([''UBER *TRIP''], ''Uber Taxi''),
     ([''PAYPAL *LYFT'', ''LYFT''], ''Lyft''),
     ([''MTA*NYCT'', ''OMNY''], ''NYC Transit''),
     ([''BIRD APP''], ''Bird Scooter''),
     ([''HNYFERRYIIL'', ''FERRY''], ''Ferry'')]\<close>

definition clothing_labels :: "(string list \<times> string) list" where
  \<open>clothing_labels =
    [([''MARSHALLS''], ''Clothes (Marshalls)''),
     ([''CENTURY 21''], ''Clothes (Century 21)''),
     ([''H&M ''], ''Clothes (H&M)''),
     ([''NIKE'', ''KLARNA*NIKE'', ''KLARNA* NIKE''], ''Clothes (Nike)''),
     ([''FIVE BELOW''], ''Five Below'')]\<close>

definition grocery_labels :: "(string list \<times> string) list" where
  \<open>grocery_labels =
    [([''KROGER''], ''Grocery (Kroger)''),
     ([''ALDI''], ''Grocery (Aldi)''),
     ([''PATEL BROTHERS''], ''Grocery (Patel Brothers)''),
     ([''B & W DELI''], ''Deli/Grocery (NYC)'')]\<close>

definition shopping_labels :: "(string list \<times> string) list" where
  \<open>shopping_labels =
    [([''DOLLAR-GENERAL'', ''DOLLAR GENERAL''], ''Dollar General''),
     ([''TARGET''], ''Target''),
     ([''MICRO CENTER''], ''Electronics (Micro Center)''),
     ([''NYC GIFTS''], ''NYC Gift Shop''),
     ([''WH SMITH''], ''WHSmith (Airport)''),
     ([''BOOTS''], ''Boots (UK Pharmacy)''),
     ([''MAFES SALES''], ''MSU MAFES Store''),
     ([''NASSAU STREET''], ''Nassau Street Store'')]\<close>

definition services_labels :: "(string list \<times> string) list" where
  \<open>services_labels =
    [([''US MOBILE'', ''USMOBILE''], ''Phone Service''),
     ([''TOGGLE INSURANCE''], ''Renters Insurance''),
     ([''MOLINA HEALTH'', ''AMBETTER'', ''WELLCARE''], ''Health Insurance''),
     ([''UPS STORE''], ''Shipping (UPS)''),
     ([''SPORT CLIPS''], ''Haircut''),
     ([''COPY COW''], ''Printing''),
     ([''PEARSON''], ''Textbooks (Pearson)''),
     ([''MSU STUDENT HEALTH''], ''MSU Health Center''),
     ([''MSU CAMPUS''], ''MSU Campus''),
     ([''HCC MEDICAL'', ''HCCMEDICAL''], ''Medical Payment''),
     ([''MIDTOWN WASH''], ''Car Wash''),
     ([''GREENE ST DECK''], ''Parking''),
     ([''SOLIDGATE''], ''Online Service''),
     ([''BICYCLE REP''], ''Bicycle Repair'')]\<close>

definition travel_labels :: "(string list \<times> string) list" where
  \<open>travel_labels =
    [([''VIRGIN ATLANTIC''], ''Flight (Virgin Atlantic)''),
     ([''CHASE TRAVEL'', ''TRIPCHRG''], ''Chase Travel''),
     ([''SUPER 8''], ''Hotel (Super 8)'')]\<close>

definition entertainment_labels :: "(string list \<times> string) list" where
  \<open>entertainment_labels =
    [([''UEC THEATRE''], ''Movie Theater''),
     ([''TOPGOLF''], ''TopGolf'')]\<close>

definition halal_patterns :: "string list" where
  \<open>halal_patterns =
    [''HALAL'',
     ''BARHOSHA'',
     ''HOODA'',
     ''YASSO'',
     ''CAIRO'']\<close>

definition restaurant_labels :: "(string list \<times> string) list" where
  \<open>restaurant_labels =
    [([''WENDYS'', ''WENDY'S'', ''WENDY S''], ''Wendy's''),
     ([''MCDONALD''], ''McDonald's''),
     ([''TACO BELL''], ''Taco Bell''),
     ([''BURGER KING''], ''Burger King''),
     ([''CHICK-FIL-A'', ''CHICKFILA'', ''CHICK FIL''], ''Chick-fil-A''),
     ([''RAISING CANE''], ''Raising Cane's''),
     ([''COOK OUT'', ''COOKOUT''], ''Cook Out''),
     ([''WAFFLE HOUSE''], ''Waffle House''),
     ([''CHILIS'', ''CHILI'S'', ''CHILI S''], ''Chili's''),
     ([''BUFFALO'', ''BUFFALOWI''], ''Buffalo Wild Wings''),
     ([''ANDAMAN THAI''], ''Thai Restaurant''),
     ([''TOPGOLF''], ''TopGolf''),
     ([''PITA PIT''], ''Pita Pit''),
     ([''DOMINO'', ''DOMINOS''], ''Domino's''),
     ([''PIZZA'', ''LITTLE ITALY''], ''Pizza''),
     ([''STARBUCKS''], ''Starbucks''),
     ([''HIGH GROUND COFFEE''], ''High Ground Coffee''),
     ([''DUNKIN''], ''Dunkin''),
     ([''DD *DOORDASH'', ''DOORDASH''], ''DoorDash''),
     ([''GRUBHUB''], ''Grubhub''),
     ([''UBER *EATS'', ''UBER EATS'', ''UBEREATS'', ''UBER   *EATS''], ''Uber Eats''),
     ([''PANDA EXPRESS'', ''TECH DINING-PANDA''], ''Panda Express''),
     ([''BOARDTOWN''], ''Boardtown Pies''),
     ([''DAVES DARK HORSE''], ''Dave's Dark Horse''),
     ([''TAXI SHOP CAF''], ''Taxi Shop Caf'' @ [CHR 0xC3, CHR 0xA9]),
     ([''RETAG FOOD''], ''Food Vendor'')]\<close>

definition vending_final_patterns :: "string list" where
  \<open>vending_final_patterns =
    [''AMK MSU'',
     ''AMK POD'',
     ''CTLP'',
     ''COCA COLA CLARK'',
     ''COCA COLA SOUTH'',
     ''365 MARKET K'']\<close>

section \<open>The rule engine\<close>

text \<open>
  \<open>df["description"].str.upper().str.contains(pat, na=False)\<close> on one row. The
  default is a regular-expression search; \<open>desc_contains_literal\<close> is the call with
  \<open>regex=False\<close>. \<open>desc_contains\<close> also upper-cases the pattern, as the loops do.
  The first argument of each is the Unicode part of \<open>str.upper\<close>.
\<close>

definition desc_matches :: "(code_point \<Rightarrow> ustr) \<Rightarrow> string \<Rightarrow> txn \<Rightarrow> bool" where
  "desc_matches up pat r = str_contains (codes pat) True (map_option (upper up) (description r))"

definition desc_contains :: "(code_point \<Rightarrow> ustr) \<Rightarrow> string \<Rightarrow> txn \<Rightarrow> bool" where
  "desc_contains up pattern r =
     str_contains (upper up (codes pattern)) True (map_option (upper up) (description r))"

definition desc_contains_literal :: "(code_point \<Rightarrow> ustr) \<Rightarrow> string \<Rightarrow> txn \<Rightarrow> bool" where
  "desc_contains_literal up pattern r =
     str_contains (upper up (codes pattern)) False (map_option (upper up) (description r))"

text \<open>Comparisons of the amount column with a number: False on a missing amount.\<close>

definition amount_lt :: "txn \<Rightarrow> real \<Rightarrow> bool" where
  "amount_lt r x = (case amount r of None \<Rightarrow> False | Some a \<Rightarrow> a < x)"

definition amount_ge :: "txn \<Rightarrow> real \<Rightarrow> bool" where
  "amount_ge r x = (case amount r of None \<Rightarrow> False | Some a \<Rightarrow> a \<ge> x)"

text \<open>\<open>df["label"] == df["category"]\<close> on one row: NaN equals nothing, itself included.\<close>

definition label_is_category :: "txn \<Rightarrow> bool" where
  "label_is_category r =
     (case label r of
        None \<Rightarrow> False
      | Some l \<Rightarrow> (case category r of None \<Rightarrow> False | Some c \<Rightarrow> l = c))"

text \<open>
  A rule is one statement \<open>df.loc[mask, "label"] = lab\<close>: the mask, as a predicate on
  the row as it stands when the statement runs, and the label it writes.
\<close>

type_synonym rule = "(txn \<Rightarrow> bool) \<times> string"

definition set_label_if :: "rule \<Rightarrow> txn \<Rightarrow> txn" where
  "set_label_if rl r = (if fst rl r then r\<lparr>label := Some (codes (snd rl))\<rparr> else r)"

definition loc_set_label :: "(txn \<Rightarrow> bool) \<Rightarrow> string \<Rightarrow> frame \<Rightarrow> frame" where
  "loc_set_label msk lab df = map (set_label_if (msk, lab)) df"

text \<open>The statements each loop of \<open>apply_labels\<close> runs, in the order it runs them.\<close>

definition pattern_rules :: "(code_point \<Rightarrow> ustr) \<Rightarrow> string list \<Rightarrow> string \<Rightarrow> rule list" where
  "pattern_rules up patterns lab = map (\<lambda>pattern. (desc_contains up pattern, lab)) patterns"

definition group_rules :: "(code_point \<Rightarrow> ustr) \<Rightarrow> (string list \<times> string) list \<Rightarrow> rule list" where
  "group_rules up table = concat (map (\<lambda>(patterns, lab). pattern_rules up patterns lab) table)"

definition vending_rules :: "(code_point \<Rightarrow> ustr) \<Rightarrow> rule list" where
  "vending_rules up = pattern_rules up vending_patterns ''Vending Machine''"

definition simplebills_rules :: "(code_point \<Rightarrow> ustr) \<Rightarrow> rule list" where
  "simplebills_rules up = [(desc_matches up ''SIMPLEBILLS|SIMPLE BILLS'', ''Electricity'')]"

definition gas_station_rules :: "(code_point \<Rightarrow> ustr) \<Rightarrow> rule list" where
  "gas_station_rules up =
     concat (map (\<lambda>pattern.
       [(\<lambda>r. desc_contains up pattern r \<and> amount_lt r 30, ''Gas Station Indiscretion''),
        (\<lambda>r. desc_contains up pattern r \<and> amount_ge r 30, ''Gasoline'')]) gas_station_patterns)"

definition merchant_rules :: "(code_point \<Rightarrow> ustr) \<Rightarrow> rule list" where
  "merchant_rules up =
     pattern_rules up walmart_patterns ''Walmart''
     @ group_rules up books_patterns
     @ group_rules up streaming_labels
     @ group_rules up pro_services_labels
     @ group_rules up api_labels
     @ group_rules up transport_labels
     @ group_rules up clothing_labels
     @ group_rules up grocery_labels
     @ group_rules up shopping_labels
     @ group_rules up services_labels
     @ group_rules up travel_labels
     @ group_rules up entertainment_labels
     @ [(desc_matches up ''MICROSOFT'', ''Microsoft'')]"

definition amazon_rules :: "(code_point \<Rightarrow> ustr) \<Rightarrow> rule list" where
  "amazon_rules up =
     [(desc_matches up ''AMAZON PRIME'', ''Amazon Prime''),
      (\<lambda>r. desc_matches up ''AMAZON'' r \<and> \<not> desc_matches up ''PRIME'' r
            \<and> \<not> desc_matches up ''KINDLE'' r \<and> \<not> desc_matches up ''WEB SERVICES'' r,
       ''Amazon Shopping'')]"

definition google_generic_mask :: "(code_point \<Rightarrow> ustr) \<Rightarrow> txn \<Rightarrow> bool" where
  "google_generic_mask up r = (desc_matches up ''PAYPAL *GOOGLE'' r \<and> label_is_category r)"

definition google_rules :: "(code_point \<Rightarrow> ustr) \<Rightarrow> rule list" where
  "google_rules up = [(google_generic_mask up, ''Google Services'')]"

definition alipay_rules :: "(code_point \<Rightarrow> ustr) \<Rightarrow> rule list" where
  "alipay_rules up = [(desc_matches up ''ALIPAY'', ''Alipay Transfer'')]"

definition halal_rules :: "(code_point \<Rightarrow> ustr) \<Rightarrow> rule list" where
  "halal_rules up = pattern_rules up halal_patterns ''NYC Halal Food''"

definition restaurant_rules :: "(code_point \<Rightarrow> ustr) \<Rightarrow> rule list" where
  "restaurant_rules up =
     concat (map (\<lambda>(patterns, lab).
       map (\<lambda>pattern.
         (\<lambda>r. desc_contains up pattern r \<and> label r \<noteq> Some (codes ''Vending Machine''), lab))
         patterns)
       restaurant_labels)"

definition vending_final_rules :: "(code_point \<Rightarrow> ustr) \<Rightarrow> rule list" where
  "vending_final_rules up =
     map (\<lambda>pattern. (desc_contains_literal up pattern, ''Vending Machine''))
       vending_final_patterns"

definition rules_after_gas :: "(code_point \<Rightarrow> ustr) \<Rightarrow> rule list" where
  "rules_after_gas up =
     merchant_rules up @ amazon_rules up @ google_rules up @ alipay_rules up @ halal_rules up
     @ restaurant_rules up @ vending_final_rules up"

definition label_rules :: "(code_point \<Rightarrow> ustr) \<Rightarrow> rule list" where
  "label_rules up =
     vending_rules up @ simplebills_rules up @ gas_station_rules up @ rules_after_gas up"

text \<open>
  \<open>apply_labels\<close>: the label column is (re)created from the category column, then the
  statements run in order, each over the whole frame.
\<close>

definition apply_labels :: "(code_point \<Rightarrow> ustr) \<Rightarrow> frame \<Rightarrow> frame" where
  "apply_labels up df =
     fold (\<lambda>(msk, lab). loc_set_label msk lab) (label_rules up)
       (map (\<lambda>r. r\<lparr>label := category r\<rparr>) df)"

text \<open>What \<open>apply_labels\<close> does to one row: the statements in order, on that row.\<close>

definition label_row :: "(code_point \<Rightarrow> ustr) \<Rightarrow> txn \<Rightarrow> txn" where
  "label_row up r = fold set_label_if (label_rules up) (r\<lparr>label := category r\<rparr>)"

section \<open>Repair of truncated extraction output\<close>

text \<open>\<open>str.count\<close> of a one-character string.\<close>

definition count_char :: "code_point \<Rightarrow> ustr \<Rightarrow> int" where
  "count_char c s = int (length (filter (\<lambda>x. x = c) s))"

text \<open>
  The scan of \<open>try_fix_truncated_json\<close> over the characters: \<open>in_string\<close> flips at each
  quotation mark (34) that no backslash (92) escapes.
\<close>

fun scan_quotes :: "bool \<Rightarrow> bool \<Rightarrow> ustr \<Rightarrow> bool" where
  "scan_quotes in_string escaped [] = in_string"
| "scan_quotes in_string escaped (c # s) =
     (if escaped then scan_quotes in_string False s
      else if c = 92 then scan_quotes in_string True s
      else if c = 34 then scan_quotes (\<not> in_string) False s
      else scan_quotes in_string False s)"

text \<open>
  A string repeated a negative number of times is empty in Python; \<open>nat\<close> of a negative
  integer is 0.
\<close>

definition try_fix_truncated_json :: "ustr \<Rightarrow> ustr" where
  "try_fix_truncated_json json_str =
     (let open_braces = count_char 123 json_str - count_char 125 json_str;
          open_brackets = count_char 91 json_str - count_char 93 json_str;
          in_string = scan_quotes False False json_str;
          fixed = json_str;
          fixed = (if in_string then fixed @ [34] else fixed);
          fixed = rstrip fixed;
          fixed = (if suffix [44] fixed then butlast fixed else fixed);
          fixed = fixed @ replicate (nat open_braces) 125;
          fixed = fixed @ replicate (nat open_brackets) 93
      in fixed)"

section \<open>JSON text\<close>

datatype py_error =
  JSONDecodeError | RecursionError | ValueError | TypeError | ApiError
  | UnicodeDecodeError | ParserError | CouldNotRead

text \<open>
  \<open>json.loads\<close> belongs to the Python library. It is modelled as a recursive-descent
  reader that follows the library's scanner from left to right: strings must close and
  hold no raw control character, an escape is one of the eight simple ones or \<open>u\<close> with
  four hexadecimal digits, arrays and objects take no trailing comma, and nothing but
  white space may follow the value; each of these failures is \<open>JSONDecodeError\<close>.
  Two more exceptions leave the library's reader: \<open>RecursionError\<close> when an array or
  object opens deeper than the interpreter's recursion allowance (\<open>depth\<close>, the number
  of levels still allowed), and \<open>ValueError\<close> when an integer literal has more digits
  than the interpreter's limit for integer strings (\<open>max_str_digits\<close>, 0 for no
  limit). A string value carries the characters between its quotes as written (escapes
  are checked, not decoded) and a number carries its text.

  Recursion is on fuel, which the text cannot use up (\<open>json_loads\<close> starts with more
  than twice its length).
\<close>

datatype json =
  JNull | JBool bool | JNum ustr | JStr ustr | JArr "json list" | JObj "(ustr \<times> json) list"

datatype 'a outcome = Parsed 'a ustr | Raised py_error | NoFuel

definition is_json_ws :: "code_point \<Rightarrow> bool" where
  "is_json_ws c = (c = 32 \<or> c = 9 \<or> c = 10 \<or> c = 13)"

definition skip_ws :: "ustr \<Rightarrow> ustr" where
  "skip_ws s = dropWhile is_json_ws s"

definition is_digit :: "code_point \<Rightarrow> bool" where
  "is_digit c = (48 \<le> c \<and> c \<le> 57)"

definition is_hex :: "code_point \<Rightarrow> bool" where
  "is_hex c = (is_digit c \<or> (97 \<le> c \<and> c \<le> 102) \<or> (65 \<le> c \<and> c \<le> 70))"

text \<open>
  The body of a string, after its opening quote: the body and the text after it. The
  simple escapes are the quotation mark, the backslash, the slash and the letters
  b, f, n, r, t; 117 is the letter u.
\<close>

fun scan_string :: "ustr \<Rightarrow> (ustr \<times> ustr) option" where
  "scan_string [] = None"
| "scan_string [c] = (if c = 34 then Some ([], []) else None)"
| "scan_string (c # e # s) =
     (if c = 34 then Some ([], e # s)
      else if c = 92 then
        (if e \<in> set [34, 92, 47, 98, 102, 110, 114, 116]
         then map_option (\<lambda>(body, rest). (c # e # body, rest)) (scan_string s)
         else if e = 117 \<and> 4 \<le> length s \<and> list_all is_hex (take 4 s)
         then map_option (\<lambda>(body, rest). (c # e # take 4 s @ body, rest)) (scan_string (drop 4 s))
         else None)
      else if c < 32 then None
      else map_option (\<lambda>(body, rest). (c # body, rest)) (scan_string (e # s)))"

text \<open>
  A number at the head of the text: an optional minus (45), an integer part without a
  leading zero, an optional fraction and an optional exponent, each taken only when
  complete. \<open>None\<close>: no number starts here. An integer (no fraction, no exponent) with
  too many digits raises \<open>ValueError\<close>.
\<close>

definition scan_fraction :: "ustr \<Rightarrow> ustr \<times> ustr" where
  "scan_fraction s =
     (case s of
        c # d # r \<Rightarrow>
          if c = 46 \<and> is_digit d
          then (c # takeWhile is_digit (d # r), dropWhile is_digit (d # r))
          else ([], s)
      | _ \<Rightarrow> ([], s))"

definition scan_exponent :: "ustr \<Rightarrow> ustr \<times> ustr" where
  "scan_exponent s =
     (case s of
        [] \<Rightarrow> ([], s)
      | c # r \<Rightarrow>
          if c = 101 \<or> c = 69 then
            (let sgn = (case r of [] \<Rightarrow> [] | g # _ \<Rightarrow> if g = 43 \<or> g = 45 then [g] else []);
                 ds = drop (length sgn) r
             in if ds \<noteq> [] \<and> is_digit (hd ds)
                then (c # sgn @ takeWhile is_digit ds, dropWhile is_digit ds)
                else ([], s))
          else ([], s))"

definition scan_number :: "nat \<Rightarrow> ustr \<Rightarrow> (py_error + ustr \<times> ustr) option" where
  "scan_number max_str_digits s =
     (let sgn = (if prefix [45] s then [45] else []);
          s1 = drop (length sgn) s
      in case s1 of
           [] \<Rightarrow> None
         | d # s2 \<Rightarrow>
             if \<not> is_digit d then None
             else
               (let ip = (if d = 48 then [d] else d # takeWhile is_digit s2);
                    (fr, s3) = scan_fraction (drop (length ip) s1);
                    (ex, s4) = scan_exponent s3
                in if fr = [] \<and> ex = [] \<and> 0 < max_str_digits \<and> max_str_digits < length ip
                   then Some (Inl ValueError)
                   else Some (Inr (sgn @ ip @ fr @ ex, s4))))"

fun parse_value :: "nat \<Rightarrow> nat \<Rightarrow> nat \<Rightarrow> ustr \<Rightarrow> json outcome"
  and parse_items :: "nat \<Rightarrow> nat \<Rightarrow> nat \<Rightarrow> ustr \<Rightarrow> json list outcome"
  and parse_members :: "nat \<Rightarrow> nat \<Rightarrow> nat \<Rightarrow> ustr \<Rightarrow> (ustr \<times> json) list outcome"
where
  "parse_value 0 depth max_str_digits s = NoFuel"
| "parse_value (Suc n) depth max_str_digits s =
     (case s of
        [] \<Rightarrow> Raised JSONDecodeError
      | c # r \<Rightarrow>
          if c = 34 then
            (case scan_string r of
               None \<Rightarrow> Raised JSONDecodeError
             | Some (body, rest) \<Rightarrow> Parsed (JStr body) rest)
          else if c = 123 then
            (if depth = 0 then Raised RecursionError
             else if prefix [125] (skip_ws r) then Parsed (JObj []) (tl (skip_ws r))
             else
               (case parse_members n (depth - 1) max_str_digits (skip_ws r) of
                  Parsed ms rest \<Rightarrow> Parsed (JObj ms) rest
                | Raised e \<Rightarrow> Raised e
                | NoFuel \<Rightarrow> NoFuel))
          else if c = 91 then
            (if depth = 0 then Raised RecursionError
             else if prefix [93] (skip_ws r) then Parsed (JArr []) (tl (skip_ws r))
             else
               (case parse_items n (depth - 1) max_str_digits (skip_ws r) of
                  Parsed vs rest \<Rightarrow> Parsed (JArr vs) rest
                | Raised e \<Rightarrow> Raised e
                | NoFuel \<Rightarrow> NoFuel))
          else if prefix (codes ''null'') s then Parsed JNull (drop 4 s)
          else if prefix (codes ''true'') s then Parsed (JBool True) (drop 4 s)
          else if prefix (codes ''false'') s then Parsed (JBool False) (drop 5 s)
          else
            (case scan_number max_str_digits s of
               Some (Inr (num, rest)) \<Rightarrow> Parsed (JNum num) rest
             | Some (Inl e) \<Rightarrow> Raised e
             | None \<Rightarrow>
                 if prefix (codes ''NaN'') s then Parsed (JNum (codes ''NaN'')) (drop 3 s)
                 else if prefix (codes ''Infinity'') s
                 then Parsed (JNum (codes ''Infinity'')) (drop 8 s)
                 else if prefix (codes ''-Infinity'') s
                 then Parsed (JNum (codes ''-Infinity'')) (drop 9 s)
                 else Raised JSONDecodeError))"
| "parse_items 0 depth max_str_digits s = NoFuel"
| "parse_items (Suc n) depth max_str_digits s =
     (case parse_value n depth max_str_digits s of
        Raised e \<Rightarrow> Raised e
      | NoFuel \<Rightarrow> NoFuel
      | Parsed v r \<Rightarrow>
          (case skip_ws r of
             [] \<Rightarrow> Raised JSONDecodeError
           | c # r' \<Rightarrow>
               if c = 93 then Parsed [v] r'
               else if c = 44 then
                 (case parse_items n depth max_str_digits (skip_ws r') of
                    Parsed vs rest \<Rightarrow> Parsed (v # vs) rest
                  | Raised e \<Rightarrow> Raised e
                  | NoFuel \<Rightarrow> NoFuel)
               else Raised JSONDecodeError))"
| "parse_members 0 depth max_str_digits s = NoFuel"
| "parse_members (Suc n) depth max_str_digits s =
     (case s of
        [] \<Rightarrow> Raised JSONDecodeError
      | q # r \<Rightarrow>
          if q \<noteq> 34 then Raised JSONDecodeError
          else
            (case scan_string r of
               None \<Rightarrow> Raised JSONDecodeError
             | Some (k, r1) \<Rightarrow>
                 if \<not> prefix [58] (skip_ws r1) then Raised JSONDecodeError
                 else
                   (case parse_value n depth max_str_digits (skip_ws (tl (skip_ws r1))) of
                      Raised e \<Rightarrow> Raised e
                    | NoFuel \<Rightarrow> NoFuel
                    | Parsed v r2 \<Rightarrow>
                        (case skip_ws r2 of
                           [] \<Rightarrow> Raised JSONDecodeError
                         | c # r3 \<Rightarrow>
                             if c = 125 then Parsed [(k, v)] r3
                             else if c = 44 then
                               (case parse_members n depth max_str_digits (skip_ws r3) of
                                  Parsed ms rest \<Rightarrow> Parsed ((k, v) # ms) rest
                                | Raised e \<Rightarrow> Raised e
                                | NoFuel \<Rightarrow> NoFuel)
                             else Raised JSONDecodeError))))"

definition json_loads :: "nat \<Rightarrow> nat \<Rightarrow> ustr \<Rightarrow> py_error + json" where
  "json_loads depth max_str_digits s =
     (case parse_value (2 * length s + 2) depth max_str_digits (skip_ws s) of
        Parsed v rest \<Rightarrow> if skip_ws rest = [] then Inr v else Inl JSONDecodeError
      | Raised e \<Rightarrow> Inl e
      | NoFuel \<Rightarrow> Inl RecursionError)"

section \<open>Extraction with repair and one retry\<close>






section \<open>Source adapters\<close>

text \<open>
  A file is its bytes. Latin-1 (and its alias ISO 8859-1) maps each byte to the code
  point of the same number. The UTF-8 and CP-1252 decoders of the library are
  parameters: \<open>None\<close> is \<open>UnicodeDecodeError\<close>.
\<close>

datatype encoding = Utf8 | Latin1 | Cp1252 | Iso8859_1

type_synonym bytes = "8 word list"

type_synonym decoder = "bytes \<Rightarrow> ustr option"

definition encodings :: "encoding list" where
  "encodings = [Utf8, Latin1, Cp1252, Iso8859_1]"

fun decode :: "decoder \<Rightarrow> decoder \<Rightarrow> encoding \<Rightarrow> bytes \<Rightarrow> ustr option" where
  "decode utf8 cp1252 Utf8 raw = utf8 raw"
| "decode utf8 cp1252 Latin1 raw = Some (map uint raw)"
| "decode utf8 cp1252 Cp1252 raw = cp1252 raw"
| "decode utf8 cp1252 Iso8859_1 raw = Some (map uint raw)"

text \<open>
  \<open>pd.read_csv(file_path, encoding=encoding)\<close>: the bytes are decoded, then the text is
  parsed into rows by \<open>parse\<close> (\<open>None\<close>: the parser rejects the text).
\<close>

definition read_csv ::
  "decoder \<Rightarrow> decoder \<Rightarrow> (ustr \<Rightarrow> 'row list option) \<Rightarrow> encoding \<Rightarrow> bytes \<Rightarrow> py_error + 'row list"
where
  "read_csv utf8 cp1252 parse encoding raw =
     (case decode utf8 cp1252 encoding raw of
        None \<Rightarrow> Inl UnicodeDecodeError
      | Some txt \<Rightarrow> (case parse txt of None \<Rightarrow> Inl ParserError | Some df \<Rightarrow> Inr df))"

text \<open>
  The loop over the candidate encodings: the first read that does not raise
  \<open>UnicodeDecodeError\<close> ends it; any other exception leaves the function.
\<close>

fun read_first_encoding ::
  "(encoding \<Rightarrow> py_error + 'df) \<Rightarrow> encoding list \<Rightarrow> py_error + 'df option" where
  "read_first_encoding rd [] = Inr None"
| "read_first_encoding rd (encoding # rest) =
     (case rd encoding of
        Inr df \<Rightarrow> Inr (Some df)
      | Inl e \<Rightarrow> if e = UnicodeDecodeError then read_first_encoding rd rest else Inl e)"

definition read_any_encoding :: "(encoding \<Rightarrow> py_error + 'df) \<Rightarrow> py_error + 'df" where
  "read_any_encoding rd =
     (case read_first_encoding rd encodings of
        Inl e \<Rightarrow> Inl e
      | Inr None \<Rightarrow> Inl CouldNotRead
      | Inr (Some df) \<Rightarrow> Inr df)"

text \<open>
  \<open>normalize_date\<close>, over the library's \<open>strptime\<close> (\<open>None\<close>: \<open>ValueError\<close>) and
  \<open>strftime\<close>.
\<close>

definition formats :: "string list" where
  "formats = [''%Y-%m-%d'', ''%m/%d/%Y'', ''%m/%d/%y'']"

fun first_format ::
  "(ustr \<Rightarrow> string \<Rightarrow> 'dt option) \<Rightarrow> ('dt \<Rightarrow> string \<Rightarrow> ustr) \<Rightarrow> ustr \<Rightarrow> string list \<Rightarrow> ustr"
where
  "first_format strptime strftime date_str [] = date_str"
| "first_format strptime strftime date_str (fmt # fmts) =
     (case strptime date_str fmt of
        Some dt \<Rightarrow> strftime dt ''%Y-%m-%d''
      | None \<Rightarrow> first_format strptime strftime date_str fmts)"

definition normalize_date ::
  "(ustr \<Rightarrow> string \<Rightarrow> 'dt option) \<Rightarrow> ('dt \<Rightarrow> string \<Rightarrow> ustr) \<Rightarrow> ustr \<Rightarrow> ustr" where
  "normalize_date strptime strftime date_str =
     first_format strptime strftime (strip date_str) formats"

text \<open>The rows of the three kinds of input file, by their columns.\<close>

record capital_one_row =
  co_transaction_date :: ustr
  co_description :: "ustr option"
  co_debit :: "real option"
  co_category :: "ustr option"

record discover_row =
  dc_trans_date :: ustr
  dc_description :: "ustr option"
  dc_amount :: "real option"
  dc_category :: "ustr option"

record chase_row =
  ch_date :: ustr
  ch_description :: "ustr option"
  ch_amount :: "real option"
  ch_category :: "ustr option"
  ch_card :: ustr
  ch_source :: ustr

definition load_capital_one ::
  "decoder \<Rightarrow> decoder \<Rightarrow> (ustr \<Rightarrow> capital_one_row list option) \<Rightarrow>
   (ustr \<Rightarrow> string \<Rightarrow> 'dt option) \<Rightarrow> ('dt \<Rightarrow> string \<Rightarrow> ustr) \<Rightarrow>
   ustr \<Rightarrow> bytes \<Rightarrow> py_error + frame"
where
  "load_capital_one utf8 cp1252 parse strptime strftime file_name raw =
     (case read_any_encoding (\<lambda>encoding. read_csv utf8 cp1252 parse encoding raw) of
        Inl e \<Rightarrow> Inl e
      | Inr df \<Rightarrow>
          Inr (map (\<lambda>row.
                 \<lparr>date = normalize_date strptime strftime (co_transaction_date row),
                  description = co_description row,
                  amount = co_debit row,
                  category = co_category row,
                  card = codes ''CapitalOne'',
                  source = file_name,
                  label = None\<rparr>)
               (filter (\<lambda>row. co_debit row \<noteq> None) df)))"

definition amount_positive :: "discover_row \<Rightarrow> bool" where
  "amount_positive row = (case dc_amount row of None \<Rightarrow> False | Some a \<Rightarrow> a > 0)"

definition category_isin :: "string list \<Rightarrow> discover_row \<Rightarrow> bool" where
  "category_isin names row =
     (case dc_category row of None \<Rightarrow> False | Some c \<Rightarrow> c \<in> set (map codes names))"

definition load_discover ::
  "decoder \<Rightarrow> decoder \<Rightarrow> (ustr \<Rightarrow> discover_row list option) \<Rightarrow>
   (ustr \<Rightarrow> string \<Rightarrow> 'dt option) \<Rightarrow> ('dt \<Rightarrow> string \<Rightarrow> ustr) \<Rightarrow>
   ustr \<Rightarrow> bytes \<Rightarrow> py_error + frame"
where
  "load_discover utf8 cp1252 parse strptime strftime file_name raw =
     (case read_any_encoding (\<lambda>encoding. read_csv utf8 cp1252 parse encoding raw) of
        Inl e \<Rightarrow> Inl e
      | Inr df \<Rightarrow>
          Inr (map (\<lambda>row.
                 \<lparr>date = normalize_date strptime strftime (dc_trans_date row),
                  description = dc_description row,
                  amount = dc_amount row,
                  category = dc_category row,
                  card = codes ''Discover'',
                  source = file_name,
                  label = None\<rparr>)
               (filter (\<lambda>row. \<not> category_isin
                          [''Payments and Credits'', ''Awards and Rebate Credits''] row)
                  (filter amount_positive df))))"

definition load_chase ::
  "decoder \<Rightarrow> decoder \<Rightarrow> (ustr \<Rightarrow> chase_row list option) \<Rightarrow> bytes \<Rightarrow> py_error + frame"
where
  "load_chase utf8 cp1252 parse raw =
     (case read_any_encoding (\<lambda>encoding. read_csv utf8 cp1252 parse encoding raw) of
        Inl e \<Rightarrow> Inl e
      | Inr df \<Rightarrow>
          Inr (map (\<lambda>row.
                 \<lparr>date = ch_date row,
                  description = ch_description row,
                  amount = ch_amount row,
                  category = ch_category row,
                  card = ch_card row,
                  source = ch_source row,
                  label = None\<rparr>) df))"

section \<open>Auxiliary notions\<close>

text \<open>A pattern without the four regular-expression constructs.\<close>

definition plain :: "ustr \<Rightarrow> bool" where
  "plain p = list_all (\<lambda>c. c \<noteq> 46 \<and> c \<noteq> 42 \<and> c \<noteq> 43 \<and> c \<noteq> 124) p"

text \<open>
  Every pattern that \<open>apply_labels\<close> hands to the regular-expression search, and the
  shape that \<open>compile_seq\<close> reads correctly: no other special character of the \<open>re\<close>
  syntax (backslash, caret, dollar, question mark, braces, brackets, parentheses), and a
  quantifier only directly after a character that it can repeat.
\<close>

definition regex_patterns :: "string list" where
  "regex_patterns =
     vending_patterns @ [''SIMPLEBILLS|SIMPLE BILLS''] @ gas_station_patterns
     @ walmart_patterns
     @ concat (map fst (books_patterns @ streaming_labels @ pro_services_labels @ api_labels
         @ transport_labels @ clothing_labels @ grocery_labels @ shopping_labels
         @ services_labels @ travel_labels @ entertainment_labels))
     @ [''MICROSOFT'', ''AMAZON PRIME'', ''AMAZON'', ''PRIME'', ''KINDLE'', ''WEB SERVICES'',
        ''PAYPAL *GOOGLE'', ''ALIPAY'']
     @ halal_patterns @ concat (map fst restaurant_labels)"

fun in_fragment :: "bool \<Rightarrow> ustr \<Rightarrow> bool" where
  "in_fragment repeatable [] = True"
| "in_fragment repeatable (c # s) =
     (c \<notin> set [92, 94, 36, 63, 123, 125, 91, 93, 40, 41]
      \<and> (if c = 42 \<or> c = 43 then repeatable \<and> in_fragment False s
         else if c = 124 then in_fragment False s
         else in_fragment True s))"

section \<open>Sample inputs\<close>

text \<open>
  The Unicode part of \<open>str.upper\<close> at the sharp s, which it turns into \<open>SS\<close>; the other
  code points beyond ASCII that occur in the samples have no upper-case form.
\<close>

definition upper_sharp_s :: "code_point \<Rightarrow> ustr" where
  "upper_sharp_s c = (if c = 223 then [83, 83] else [c])"

text \<open>A campus vending purchase whose description also names a restaurant.\<close>

definition campus_panda :: txn where
  "campus_panda =
     \<lparr>date = codes ''2025-02-03'',
      description = Some (codes ''Amk Msu Panda Express 0123 Starkville''),
      amount = Some 4.25, category = Some (codes ''Dining''), card = codes ''Discover'',
      source = codes ''Discover-2025.csv'', label = None\<rparr>"

text \<open>A gas-station purchase just under the threshold, and the same one at it.\<close>

definition shell_snack :: txn where
  "shell_snack =
     \<lparr>date = codes ''2025-03-01'', description = Some (codes ''SHELL OIL 12345 STARKVILLE MS''),
      amount = Some 29.99, category = Some (codes ''Gas/Automotive''),
      card = codes ''CapitalOne'', source = codes ''CapitalOne-2025.csv'', label = None\<rparr>"

definition shell_fill_up :: txn where
  "shell_fill_up = shell_snack\<lparr>amount := Some 30.00\<rparr>"

text \<open>
  A gas-station purchase in a street whose name is written with a sharp s: upper-casing
  turns it into the pattern of a later rule.
\<close>

definition shell_sharp_s :: txn where
  "shell_sharp_s =
     shell_snack\<lparr>description := Some (codes ''SHELL NA'' @ [223] @ codes ''AU STREET''),
       amount := Some 10\<rparr>"

text \<open>A payment to Google through PayPal, as the card statement prints it.\<close>

definition google_storage :: txn where
  "google_storage =
     \<lparr>date = codes ''2025-04-02'', description = Some (codes ''PAYPAL *GOOGLE STORAGE''),
      amount = Some 1.99, category = Some (codes ''Services''), card = codes ''Discover'',
      source = codes ''Discover-2025.csv'', label = None\<rparr>"

text \<open>
  A row whose category cell is empty in the source file, and the same row from a
  vending machine.
\<close>

definition uncategorised :: txn where
  "uncategorised =
     \<lparr>date = codes ''2025-05-06'', description = Some (codes ''LOCAL HARDWARE 0042''),
      amount = Some 12.00, category = None, card = codes ''CapitalOne'',
      source = codes ''CapitalOne-2025.csv'', label = None\<rparr>"

definition uncategorised_vending :: txn where
  "uncategorised_vending = uncategorised\<lparr>description := Some (codes ''CTLP*REFRESH 0042'')\<rparr>"




text \<open>
  Three small input files with the rows that the CSV reader makes of them. The sample
  decoder accepts ASCII bytes only, on which UTF-8 and CP-1252 agree; the sample
  \<open>strptime\<close> and \<open>strftime\<close> give the library's answers on the dates of the files,
  a parsed date being held in its ISO form.
\<close>

definition bytes_of :: "string \<Rightarrow> bytes" where
  "bytes_of s = map of_char s"

definition ascii_decoder :: decoder where
  "ascii_decoder raw = (if list_all (\<lambda>b. b < 128) raw then Some (map uint raw) else None)"

definition sample_strptime :: "ustr \<Rightarrow> string \<Rightarrow> ustr option" where
  "sample_strptime date_str fmt =
     (if fmt = ''%Y-%m-%d'' \<and> date_str \<in> set (map codes [''2025-03-01'', ''2025-03-06''])
      then Some date_str
      else if fmt = ''%m/%d/%Y'' \<and> date_str = codes ''03/02/2025'' then Some (codes ''2025-03-02'')
      else None)"

definition sample_strftime :: "ustr \<Rightarrow> string \<Rightarrow> ustr" where
  "sample_strftime dt fmt = dt"

definition chase_file :: bytes where
  "chase_file = bytes_of (''date,description,amount,category,card,source'' @ [CHR 0x0A]
     @ ''2025-01-05,AMAZON REFUND,-25.0,Other,Chase-2040,stmt.pdf'' @ [CHR 0x0A])"

definition read_chase_file :: "ustr \<Rightarrow> chase_row list option" where
  "read_chase_file txt =
     (if txt = map uint chase_file
      then Some [\<lparr>ch_date = codes ''2025-01-05'', ch_description = Some (codes ''AMAZON REFUND''),
                  ch_amount = Some (-25), ch_category = Some (codes ''Other''),
                  ch_card = codes ''Chase-2040'', ch_source = codes ''stmt.pdf''\<rparr>]
      else None)"

definition discover_file :: bytes where
  "discover_file = bytes_of (''Trans. Date,Post Date,Description,Amount,Category'' @ [CHR 0x0A]
     @ ''03/02/2025,03/02/2025,NETFLIX.COM,15.99,Entertainment'' @ [CHR 0x0A]
     @ ''03/05/2025,03/05/2025,INTERNET PAYMENT - THANK YOU,-120.00,Payments and Credits''
     @ [CHR 0x0A]
     @ ''03/07/2025,03/07/2025,CASHBACK BONUS REDEMPTION,20.00,Awards and Rebate Credits''
     @ [CHR 0x0A])"

definition read_discover_file :: "ustr \<Rightarrow> discover_row list option" where
  "read_discover_file txt =
     (if txt = map uint discover_file
      then Some [\<lparr>dc_trans_date = codes ''03/02/2025'',
                  dc_description = Some (codes ''NETFLIX.COM''),
                  dc_amount = Some 15.99, dc_category = Some (codes ''Entertainment'')\<rparr>,
                 \<lparr>dc_trans_date = codes ''03/05/2025'',
                  dc_description = Some (codes ''INTERNET PAYMENT - THANK YOU''),
                  dc_amount = Some (-120), dc_category = Some (codes ''Payments and Credits'')\<rparr>,
                 \<lparr>dc_trans_date = codes ''03/07/2025'',
                  dc_description = Some (codes ''CASHBACK BONUS REDEMPTION''),
                  dc_amount = Some 20,
                  dc_category = Some (codes ''Awards and Rebate Credits'')\<rparr>]
      else None)"

definition capital_one_file :: bytes where
  "capital_one_file = bytes_of
     (''Transaction Date,Posted Date,Card No.,Description,Category,Debit,Credit'' @ [CHR 0x0A]
     @ ''2025-03-01,2025-03-02,1234,SHELL OIL 12345,Gas/Automotive,12.50,'' @ [CHR 0x0A]
     @ ''2025-03-04,2025-03-04,1234,CAPITAL ONE MOBILE PYMT,Payment/Credit,,80.00''
     @ [CHR 0x0A]
     @ ''2025-03-06,2025-03-07,1234,MERCHANT ADJUSTMENT,Other,-5.00,'' @ [CHR 0x0A])"

definition read_capital_one_file :: "ustr \<Rightarrow> capital_one_row list option" where
  "read_capital_one_file txt =
     (if txt = map uint capital_one_file
      then Some [\<lparr>co_transaction_date = codes ''2025-03-01'',
                  co_description = Some (codes ''SHELL OIL 12345''),
                  co_debit = Some 12.5, co_category = Some (codes ''Gas/Automotive'')\<rparr>,
                 \<lparr>co_transaction_date = codes ''2025-03-04'',
                  co_description = Some (codes ''CAPITAL ONE MOBILE PYMT''),
                  co_debit = None, co_category = Some (codes ''Payment/Credit'')\<rparr>,
                 \<lparr>co_transaction_date = codes ''2025-03-06'',
                  co_description = Some (codes ''MERCHANT ADJUSTMENT''),
                  co_debit = Some (-5), co_category = Some (codes ''Other'')\<rparr>]
      else None)"

section \<open>Text lemmas\<close>

lemma str_find_sublist: "str_find p s = sublist p s"
  by (induction s) (auto simp: sublist_Cons_right)

lemma str_find_trans: "str_find q p \<Longrightarrow> str_find p s \<Longrightarrow> str_find q s"
  unfolding str_find_sublist by (rule sublist_order.order_trans)

lemma regex_patterns_in_fragment:
  "list_all (\<lambda>p. in_fragment False (upper up (codes p))) regex_patterns"
  by code_simp

lemma split_on_absent: "sep \<notin> set p \<Longrightarrow> split_on sep p = [p]"
  by (induction p) auto

lemma compile_seq_plain: "plain p \<Longrightarrow> compile_seq p = map (\<lambda>c. Once (Lit c)) p"
  by (induction p rule: compile_seq.induct) (auto simp: plain_def atom_of_def)

lemma match_here_literal: "match_here (map (\<lambda>c. Once (Lit c)) p) s = prefix p s"
proof (induction p arbitrary: s)
  case Nil
  show ?case by simp
next
  case (Cons a p)
  show ?case by (cases s) (auto simp: Cons.IH)
qed

lemma search_seq_literal: "search_seq (map (\<lambda>c. Once (Lit c)) p) s = str_find p s"
  by (induction s) (simp_all add: match_here_literal)

lemma re_search_plain: "plain p \<Longrightarrow> re_search p s = str_find p s"
proof -
  assume pl: "plain p"
  then have "124 \<notin> set p"
    by (auto simp: plain_def list_all_iff)
  then show ?thesis
    by (simp add: re_search_def re_compile_def split_on_absent compile_seq_plain[OF pl]
        search_seq_literal)
qed

section \<open>Rows, statements and labels\<close>

lemma fold_only_label:
  "fold set_label_if rules r = r\<lparr>label := label (fold set_label_if rules r)\<rparr>"
proof (induction rules arbitrary: r)
  case Nil
  show ?case by simp
next
  case (Cons rl rules)
  have "fold set_label_if (rl # rules) r = fold set_label_if rules (set_label_if rl r)"
    by simp
  also have "\<dots> = (set_label_if rl r)\<lparr>label := label (fold set_label_if rules (set_label_if rl r))\<rparr>"
    by (rule Cons.IH)
  also have "\<dots> = r\<lparr>label := label (fold set_label_if rules (set_label_if rl r))\<rparr>"
    by (simp add: set_label_if_def)
  finally show ?case by simp
qed

lemma fold_loc_set_label:
  "fold (\<lambda>(msk, lab). loc_set_label msk lab) rules df = map (fold set_label_if rules) df"
  by (induction rules arbitrary: df) (auto simp: loc_set_label_def)

lemma apply_labels_rows: "apply_labels up df = map (label_row up) df"
  by (simp add: apply_labels_def fold_loc_set_label label_row_def comp_def)

lemma label_row_only_label: "label_row up r = r\<lparr>label := label (label_row up r)\<rparr>"
proof -
  have "label_row up r = (r\<lparr>label := category r\<rparr>)\<lparr>label := label (label_row up r)\<rparr>"
    unfolding label_row_def by (rule fold_only_label)
  then show ?thesis by simp
qed

lemma label_row_idem: "label_row up (label_row up r) = label_row up r"
proof -
  obtain l where l: "label_row up r = r\<lparr>label := l\<rparr>"
    using label_row_only_label by blast
  have "label_row up (r\<lparr>label := l\<rparr>) = label_row up r"
    by (simp add: label_row_def)
  then show ?thesis by (simp only: l)
qed

text \<open>
  Claim C2. Running \<open>apply_labels\<close> on its own output gives that output again: every
  label of the second run is the label of the first.
\<close>

theorem apply_labels_idempotent: "apply_labels up (apply_labels up df) = apply_labels up df"
  by (simp add: apply_labels_rows label_row_idem)

lemma fold_some_fires:
  assumes "\<forall>rl\<in>set rules. \<forall>l. fst rl (r\<lparr>label := l\<rparr>) \<longrightarrow> snd rl = lab"
    and "l0 = Some (codes lab) \<or> (\<exists>rl\<in>set rules. \<forall>l. fst rl (r\<lparr>label := l\<rparr>))"
  shows "label (fold set_label_if rules (r\<lparr>label := l0\<rparr>)) = Some (codes lab)"
  using assms
proof (induction rules arbitrary: l0)
  case Nil
  then show ?case by simp
next
  case (Cons rl rules)
  let ?l1 = "if fst rl (r\<lparr>label := l0\<rparr>) then Some (codes (snd rl)) else l0"
  have step: "set_label_if rl (r\<lparr>label := l0\<rparr>) = r\<lparr>label := ?l1\<rparr>"
    by (simp add: set_label_if_def)
  have "?l1 = Some (codes lab) \<or> (\<exists>rl\<in>set rules. \<forall>l. fst rl (r\<lparr>label := l\<rparr>))"
    using Cons.prems by auto
  moreover have "\<forall>rl\<in>set rules. \<forall>l. fst rl (r\<lparr>label := l\<rparr>) \<longrightarrow> snd rl = lab"
    using Cons.prems(1) by simp
  ultimately have "label (fold set_label_if rules (r\<lparr>label := ?l1\<rparr>)) = Some (codes lab)"
    by (rule Cons.IH[rotated])
  then show ?case by (simp only: fold_simps step)
qed

lemma fold_none_fires:
  "\<forall>rl\<in>set rules. \<not> fst rl r \<Longrightarrow> fold set_label_if rules r = r"
  by (induction rules) (auto simp: set_label_if_def)

lemma fold_label_origin:
  "label (fold set_label_if rules r) = label r
   \<or> (\<exists>rl\<in>set rules. label (fold set_label_if rules r) = Some (codes (snd rl)))"
proof (induction rules arbitrary: r)
  case Nil
  show ?case by simp
next
  case (Cons rl rules)
  from Cons.IH[of "set_label_if rl r"] show ?case
    by (auto simp: set_label_if_def split: if_splits)
qed

lemma fold_fired_label:
  "(\<forall>rl\<in>set rules. \<not> fst rl r)
   \<or> (\<exists>rl\<in>set rules. label (fold set_label_if rules r) = Some (codes (snd rl)))"
proof (induction rules arbitrary: r)
  case Nil
  show ?case by simp
next
  case (Cons rl rules)
  show ?case
  proof (cases "fst rl r")
    case True
    then have step: "fold set_label_if (rl # rules) r
        = fold set_label_if rules (r\<lparr>label := Some (codes (snd rl))\<rparr>)"
      by (simp add: set_label_if_def)
    have "\<exists>x\<in>set (rl # rules).
        label (fold set_label_if rules (r\<lparr>label := Some (codes (snd rl))\<rparr>)) = Some (codes (snd x))"
      using fold_label_origin[of rules "r\<lparr>label := Some (codes (snd rl))\<rparr>"] by auto
    then show ?thesis
      by (simp only: step) blast
  next
    case False
    with Cons.IH[of r] show ?thesis
      by (auto simp: set_label_if_def)
  qed
qed

lemma desc_contains_plain:
  "plain (upper up (codes p)) \<Longrightarrow> desc_contains up p r = desc_contains_literal up p r"
  by (simp add: desc_contains_def desc_contains_literal_def str_contains_def
      re_search_plain split: option.splits)

lemma desc_contains_literal_label [simp]:
  "desc_contains_literal up p (r\<lparr>label := l\<rparr>) = desc_contains_literal up p r"
  by (simp add: desc_contains_literal_def)

lemma desc_matches_label [simp]: "desc_matches up p (r\<lparr>label := l\<rparr>) = desc_matches up p r"
  by (simp add: desc_matches_def)

lemma desc_contains_label [simp]: "desc_contains up p (r\<lparr>label := l\<rparr>) = desc_contains up p r"
  by (simp add: desc_contains_def)

lemma desc_contains_literal_trans:
  "str_find (upper up (codes q)) (upper up (codes p)) \<Longrightarrow> desc_contains_literal up p r
   \<Longrightarrow> desc_contains_literal up q r"
  by (auto simp: desc_contains_literal_def str_contains_def split: option.splits
      intro: str_find_trans)

section \<open>Precedence of the vending-machine label\<close>

lemma final_pattern_inside:
  "\<forall>p\<in>set (vending_patterns @ vending_final_patterns).
     \<exists>q\<in>set vending_final_patterns. str_find (upper up (codes q)) (upper up (codes p))"
  by code_simp

lemma label_rules_final:
  "label_rules up =
     (vending_rules up @ simplebills_rules up @ gas_station_rules up @ merchant_rules up
      @ amazon_rules up @ google_rules up @ alipay_rules up @ halal_rules up
      @ restaurant_rules up) @ vending_final_rules up"
  by (simp add: label_rules_def rules_after_gas_def)

text \<open>
  Claim C1. A transaction whose description contains, as a literal substring and without
  regard to case, one of the vending-machine patterns ends with the label
  \<open>Vending Machine\<close>, whatever else its description or amount matches.
\<close>

theorem vending_precedence:
  assumes "i < length df"
    and "p \<in> set vending_patterns \<union> set vending_final_patterns"
    and "desc_contains_literal up p (df ! i)"
  shows "label (apply_labels up df ! i) = Some (codes ''Vending Machine'')"
proof -
  let ?r = "df ! i"
  let ?pre = "vending_rules up @ simplebills_rules up @ gas_station_rules up
      @ merchant_rules up @ amazon_rules up @ google_rules up @ alipay_rules up
      @ halal_rules up @ restaurant_rules up"
  obtain q where q: "q \<in> set vending_final_patterns"
      "str_find (upper up (codes q)) (upper up (codes p))"
    using final_pattern_inside[of up] assms(2) by auto
  have hit: "desc_contains_literal up q ?r"
    using q(2) assms(3) by (rule desc_contains_literal_trans)
  obtain l1 where l1: "fold set_label_if ?pre (?r\<lparr>label := category ?r\<rparr>) = ?r\<lparr>label := l1\<rparr>"
    using fold_only_label[of ?pre "?r\<lparr>label := category ?r\<rparr>"] by auto
  have "label (fold set_label_if (vending_final_rules up) (?r\<lparr>label := l1\<rparr>))
      = Some (codes ''Vending Machine'')"
  proof (rule fold_some_fires)
    show "\<forall>rl\<in>set (vending_final_rules up).
        \<forall>l. fst rl (?r\<lparr>label := l\<rparr>) \<longrightarrow> snd rl = ''Vending Machine''"
      by (auto simp: vending_final_rules_def)
    have "(desc_contains_literal up q, ''Vending Machine'') \<in> set (vending_final_rules up)"
      using q(1) by (auto simp: vending_final_rules_def)
    then show "l1 = Some (codes ''Vending Machine'')
        \<or> (\<exists>rl\<in>set (vending_final_rules up). \<forall>l. fst rl (?r\<lparr>label := l\<rparr>))"
      using hit by force
  qed
  moreover have "label_row up ?r =
      fold set_label_if (vending_final_rules up)
        (fold set_label_if ?pre (?r\<lparr>label := category ?r\<rparr>))"
    by (simp only: label_row_def label_rules_final fold_append comp_def)
  ultimately have "label (label_row up ?r) = Some (codes ''Vending Machine'')"
    by (simp only: l1)
  then show ?thesis
    using assms(1) by (simp add: apply_labels_rows)
qed

theorem vending_precedence_witness:
  "desc_contains_literal upper_sharp_s ''AMK MSU PANDA'' ([campus_panda] ! 0)
   \<and> desc_contains upper_sharp_s ''PANDA EXPRESS'' campus_panda
   \<and> label (apply_labels upper_sharp_s [campus_panda] ! 0) = Some (codes ''Vending Machine'')"
proof -
  have p: "''AMK MSU PANDA'' \<in> set vending_patterns \<union> set vending_final_patterns"
    by (simp add: vending_patterns_def)
  have h: "desc_contains_literal upper_sharp_s ''AMK MSU PANDA'' ([campus_panda] ! 0)"
    by code_simp
  have o: "desc_contains upper_sharp_s ''PANDA EXPRESS'' campus_panda"
    by code_simp
  show ?thesis
    using vending_precedence[of 0 "[campus_panda]" "''AMK MSU PANDA''" upper_sharp_s, OF _ p h]
      h o
    by simp
qed

section \<open>The amount threshold of the gas-station rules\<close>

lemma gas_patterns_plain: "\<forall>p\<in>set gas_station_patterns. plain (upper up (codes p))"
  by code_simp

lemma label_rules_gas:
  "label_rules up =
     (vending_rules up @ simplebills_rules up) @ gas_station_rules up @ rules_after_gas up"
  by (simp add: label_rules_def)

lemma amount_lt_label [simp]: "amount_lt (r\<lparr>label := l\<rparr>) x = amount_lt r x"
  by (simp add: amount_lt_def)

lemma amount_ge_label [simp]: "amount_ge (r\<lparr>label := l\<rparr>) x = amount_ge r x"
  by (simp add: amount_ge_def)

lemma gas_station_stage:
  assumes "p \<in> set gas_station_patterns"
    and "desc_contains up p r"
    and "amount r = Some a"
  shows "fold set_label_if (gas_station_rules up) (r\<lparr>label := l0\<rparr>) =
         r\<lparr>label := Some (codes (if a < 30 then ''Gas Station Indiscretion'' else ''Gasoline''))\<rparr>"
proof -
  let ?lab = "if a < 30 then ''Gas Station Indiscretion'' else ''Gasoline''"
  have "label (fold set_label_if (gas_station_rules up) (r\<lparr>label := l0\<rparr>)) = Some (codes ?lab)"
  proof (rule fold_some_fires)
    show "\<forall>rl\<in>set (gas_station_rules up). \<forall>l. fst rl (r\<lparr>label := l\<rparr>) \<longrightarrow> snd rl = ?lab"
      using assms(3) by (auto simp: gas_station_rules_def amount_lt_def amount_ge_def)
    have "(\<lambda>r. desc_contains up p r \<and> amount_lt r 30, ''Gas Station Indiscretion'')
        \<in> set (gas_station_rules up)"
      and "(\<lambda>r. desc_contains up p r \<and> amount_ge r 30, ''Gasoline'') \<in> set (gas_station_rules up)"
      using assms(1) by (auto simp: gas_station_rules_def)
    then have "\<exists>rl\<in>set (gas_station_rules up). \<forall>l. fst rl (r\<lparr>label := l\<rparr>)"
      using assms(2,3) by (cases "a < 30") (force simp: amount_lt_def amount_ge_def)+
    then show "l0 = Some (codes ?lab)
        \<or> (\<exists>rl\<in>set (gas_station_rules up). \<forall>l. fst rl (r\<lparr>label := l\<rparr>))"
      by blast
  qed
  then show ?thesis
    using fold_only_label[of "gas_station_rules up" "r\<lparr>label := l0\<rparr>"] by simp
qed

text \<open>
  Claim C3. A transaction whose description contains a gas-station pattern (literal
  substring, case ignored) and on which no later statement fires is labelled
  \<open>Gas Station Indiscretion\<close> when its amount is below 30 and \<open>Gasoline\<close> when it is
  30 or more; 29.99 and 30.00 fall on the two sides. The description is searched as
  \<open>str.upper\<close> leaves it, for any Unicode upper-case mapping.
\<close>

theorem gas_threshold_split:
  assumes "i < length df"
    and "p \<in> set gas_station_patterns"
    and "desc_contains_literal up p (df ! i)"
    and "amount (df ! i) = Some a"
    and "\<forall>rl\<in>set (rules_after_gas up).
           \<not> fst rl ((df ! i)\<lparr>label :=
                 Some (codes (if a < 30 then ''Gas Station Indiscretion'' else ''Gasoline''))\<rparr>)"
  shows "label (apply_labels up df ! i) =
         Some (codes (if a < 30 then ''Gas Station Indiscretion'' else ''Gasoline''))"
proof -
  let ?r = "df ! i"
  let ?lab = "if a < 30 then ''Gas Station Indiscretion'' else ''Gasoline''"
  have hit: "desc_contains up p ?r"
    using assms(2,3) gas_patterns_plain[of up] by (simp add: desc_contains_plain)
  obtain l1 where l1:
    "fold set_label_if (vending_rules up @ simplebills_rules up) (?r\<lparr>label := category ?r\<rparr>)
       = ?r\<lparr>label := l1\<rparr>"
    using fold_only_label[of "vending_rules up @ simplebills_rules up"
        "?r\<lparr>label := category ?r\<rparr>"]
    by auto
  have "label_row up ?r =
      fold set_label_if (rules_after_gas up) (fold set_label_if (gas_station_rules up)
        (fold set_label_if (vending_rules up @ simplebills_rules up)
          (?r\<lparr>label := category ?r\<rparr>)))"
    by (simp only: label_row_def label_rules_gas fold_append comp_def)
  also have "\<dots> = fold set_label_if (rules_after_gas up) (?r\<lparr>label := Some (codes ?lab)\<rparr>)"
    by (simp only: l1 gas_station_stage[OF assms(2) hit assms(4)])
  also have "\<dots> = ?r\<lparr>label := Some (codes ?lab)\<rparr>"
    using assms(5) by (rule fold_none_fires)
  finally show ?thesis
    using assms(1) by (simp add: apply_labels_rows)
qed

theorem gas_threshold_split_witness:
  "amount ([shell_snack] ! 0) = Some 29.99
   \<and> label (apply_labels upper_sharp_s [shell_snack] ! 0)
       = Some (codes ''Gas Station Indiscretion'')
   \<and> amount ([shell_fill_up] ! 0) = Some 30
   \<and> label (apply_labels upper_sharp_s [shell_fill_up] ! 0) = Some (codes ''Gasoline'')"
proof -
  have p: "''SHELL'' \<in> set gas_station_patterns"
    by (simp add: gas_station_patterns_def)
  have d1: "desc_contains_literal upper_sharp_s ''SHELL'' ([shell_snack] ! 0)"
    and d2: "desc_contains_literal upper_sharp_s ''SHELL'' ([shell_fill_up] ! 0)"
    by code_simp+
  have a1: "amount ([shell_snack] ! 0) = Some 29.99"
    and a2: "amount ([shell_fill_up] ! 0) = Some 30"
    by (simp_all add: shell_snack_def shell_fill_up_def)
  have n1: "\<forall>rl\<in>set (rules_after_gas upper_sharp_s).
      \<not> fst rl (([shell_snack] ! 0)\<lparr>label :=
          Some (codes (if (29.99::real) < 30 then ''Gas Station Indiscretion'' else ''Gasoline''))\<rparr>)"
    by code_simp
  have n2: "\<forall>rl\<in>set (rules_after_gas upper_sharp_s).
      \<not> fst rl (([shell_fill_up] ! 0)\<lparr>label :=
          Some (codes (if (30::real) < 30 then ''Gas Station Indiscretion'' else ''Gasoline''))\<rparr>)"
    by code_simp
  show ?thesis
    using gas_threshold_split[of 0 "[shell_snack]" "''SHELL''" upper_sharp_s "29.99",
        OF _ p d1 a1 n1]
      gas_threshold_split[of 0 "[shell_fill_up]" "''SHELL''" upper_sharp_s 30, OF _ p d2 a2 n2]
      a1 a2
    by simp
qed

text \<open>
  Upper-casing can create a match: with the sharp s turned into \<open>SS\<close>, the description
  of \<open>shell_sharp_s\<close> holds the pattern \<open>NASSAU STREET\<close> of a later rule, which then
  decides the label.
\<close>

lemma sharp_s_creates_match:
  "desc_contains upper_sharp_s ''NASSAU STREET'' shell_sharp_s
   \<and> map label (apply_labels upper_sharp_s [shell_sharp_s]) = [Some (codes ''Nassau Street Store'')]"
  by code_simp

section \<open>The generic Google payment rule\<close>

text \<open>
  Claim C4. The rule is stated for descriptions that contain \<open>PAYPAL *GOOGLE\<close> as a
  substring. The search of the guard is a regular-expression search, in which \<open> *\<close>
  stands for any number of spaces: on a description that holds the pattern letter for
  letter, with the label still equal to the category, the mask is false and the label
  stays the category.
\<close>

theorem google_generic_misses_literal:
  "desc_contains_literal up ''PAYPAL *GOOGLE'' google_storage
   \<and> label (fold set_label_if
        (vending_rules up @ simplebills_rules up @ gas_station_rules up @ merchant_rules up
         @ amazon_rules up)
        (google_storage\<lparr>label := category google_storage\<rparr>)) = category google_storage
   \<and> \<not> google_generic_mask up (google_storage\<lparr>label := category google_storage\<rparr>)
   \<and> map label (apply_labels up [google_storage]) = [Some (codes ''Services'')]"
  by code_simp

section \<open>Which labels are defined\<close>

lemma rule_labels_nonempty: "\<forall>rl\<in>set (label_rules up). codes (snd rl) \<noteq> []"
  by code_simp

text \<open>
  Claim C8, as stated, fails on a row whose category cell is empty: no rule matches and
  the label is the missing category.
\<close>

theorem missing_category_missing_label:
  "map category [uncategorised] = [None]
   \<and> map label (apply_labels upper_sharp_s [uncategorised]) = [None]"
  by code_simp

text \<open>
  Claim C8, amended. After \<open>apply_labels\<close> the label of a transaction is defined and
  non-empty exactly when its category is defined and non-empty or the mask of some
  statement holds on the row as it enters the engine. In the remaining case, a missing
  or empty category and no mask that holds, the label is the category as it came.
\<close>

theorem label_defined_iff:
  assumes "i < length df"
  shows "((\<exists>l. label (apply_labels up df ! i) = Some l \<and> l \<noteq> [])
          \<longleftrightarrow> (\<exists>c. category (df ! i) = Some c \<and> c \<noteq> [])
              \<or> (\<exists>rl\<in>set (label_rules up). fst rl ((df ! i)\<lparr>label := category (df ! i)\<rparr>)))
         \<and> ((\<forall>rl\<in>set (label_rules up). \<not> fst rl ((df ! i)\<lparr>label := category (df ! i)\<rparr>))
              \<longrightarrow> label (apply_labels up df ! i) = category (df ! i))"
proof -
  let ?r = "df ! i"
  let ?start = "?r\<lparr>label := category ?r\<rparr>"
  have row: "apply_labels up df ! i = label_row up ?r"
    using assms by (simp add: apply_labels_rows)
  have quiet: "label (label_row up ?r) = category ?r"
    if "\<forall>rl\<in>set (label_rules up). \<not> fst rl ?start"
    using fold_none_fires[OF that] by (simp add: label_row_def)
  have fired: "\<exists>l. label (label_row up ?r) = Some l \<and> l \<noteq> []"
    if "\<exists>rl\<in>set (label_rules up). fst rl ?start"
    using fold_fired_label[of "label_rules up" ?start] that rule_labels_nonempty[of up]
    by (auto simp: label_row_def)
  show ?thesis
    unfolding row using quiet fired by (cases "\<exists>rl\<in>set (label_rules up). fst rl ?start") auto
qed

theorem label_defined_iff_witness:
  "category ([campus_panda] ! 0) = Some (codes ''Dining'')
   \<and> (\<exists>l. label (apply_labels upper_sharp_s [campus_panda] ! 0) = Some l \<and> l \<noteq> [])
   \<and> category ([uncategorised_vending] ! 0) = None
   \<and> (\<exists>rl\<in>set (label_rules upper_sharp_s).
         fst rl (([uncategorised_vending] ! 0)\<lparr>label := category ([uncategorised_vending] ! 0)\<rparr>))
   \<and> (\<exists>l. label (apply_labels upper_sharp_s [uncategorised_vending] ! 0) = Some l \<and> l \<noteq> [])
   \<and> list_all (\<lambda>rl. \<not> fst rl (([uncategorised] ! 0)\<lparr>label := category ([uncategorised] ! 0)\<rparr>))
         (label_rules upper_sharp_s)
   \<and> label (apply_labels upper_sharp_s [uncategorised] ! 0) = category ([uncategorised] ! 0)"
proof -
  have c: "category ([campus_panda] ! 0) = Some (codes ''Dining'')" "codes ''Dining'' \<noteq> []"
    by code_simp+
  have v: "category ([uncategorised_vending] ! 0) = None"
    by code_simp
  have m: "\<exists>rl\<in>set (label_rules upper_sharp_s).
      fst rl (([uncategorised_vending] ! 0)\<lparr>label := category ([uncategorised_vending] ! 0)\<rparr>)"
    by code_simp
  have n: "\<forall>rl\<in>set (label_rules upper_sharp_s).
      \<not> fst rl (([uncategorised] ! 0)\<lparr>label := category ([uncategorised] ! 0)\<rparr>)"
    by code_simp
  have 1: "\<exists>l. label (apply_labels upper_sharp_s [campus_panda] ! 0) = Some l \<and> l \<noteq> []"
    using label_defined_iff[of 0 "[campus_panda]" upper_sharp_s] c by auto
  have 2: "\<exists>l. label (apply_labels upper_sharp_s [uncategorised_vending] ! 0) = Some l \<and> l \<noteq> []"
    using label_defined_iff[of 0 "[uncategorised_vending]" upper_sharp_s] m by auto
  have 3: "label (apply_labels upper_sharp_s [uncategorised] ! 0) = category ([uncategorised] ! 0)"
    using label_defined_iff[of 0 "[uncategorised]" upper_sharp_s] n by auto
  show ?thesis
    using c v m n 1 2 3 by (simp add: list_all_iff)
qed

section \<open>The JSON reader does not run out of fuel\<close>

lemma skip_ws_length: "length (skip_ws s) \<le> length s"
  by (simp add: skip_ws_def length_dropWhile_le)

lemma scan_string_shorter: "scan_string s = Some (body, rest) \<Longrightarrow> length rest < length s"
proof (induction s arbitrary: body rest rule: scan_string.induct)
  case 1
  then show ?case by simp
next
  case (2 c)
  then show ?case by (simp split: if_splits)
next
  case (3 c e s)
  show ?case
  proof (cases "c = 34")
    case True
    with 3(4) show ?thesis by simp
  next
    case False
    note nq = this
    show ?thesis
    proof (cases "c = 92")
      case True
      note bs = this
      show ?thesis
      proof (cases "e \<in> set [34, 92, 47, 98, 102, 110, 114, 116]")
        case True
        with nq bs 3(4) obtain b where "scan_string s = Some (b, rest)"
          by (auto simp del: set_simps)
        with 3(1)[OF nq bs True] show ?thesis by fastforce
      next
        case False
        note ne = this
        show ?thesis
        proof (cases "e = 117 \<and> 4 \<le> length s \<and> list_all is_hex (take 4 s)")
          case True
          with nq bs ne 3(4) obtain b where "scan_string (drop 4 s) = Some (b, rest)"
            by (auto simp del: set_simps)
          with 3(2)[OF nq bs ne True] show ?thesis by fastforce
        next
          case False
          with nq bs ne 3(4) show ?thesis by (simp del: set_simps)
        qed
      qed
    next
      case False
      note nb = this
      show ?thesis
      proof (cases "c < 32")
        case True
        with nq nb 3(4) show ?thesis by simp
      next
        case False
        with nq nb 3(4) obtain b where "scan_string (e # s) = Some (b, rest)"
          by auto
        with 3(3)[OF nq nb False] show ?thesis by fastforce
      qed
    qed
  qed
qed

lemma scan_fraction_length: "scan_fraction s = (fr, rest) \<Longrightarrow> length rest \<le> length s"
  by (auto simp: scan_fraction_def split: list.splits if_splits
      intro: order_trans[OF length_dropWhile_le])

lemma scan_exponent_length: "scan_exponent s = (ex, rest) \<Longrightarrow> length rest \<le> length s"
  by (auto simp: scan_exponent_def Let_def split: list.splits if_splits
      intro: order_trans[OF length_dropWhile_le])

lemma scan_number_shorter:
  assumes "scan_number m s = Some (Inr (num, rest))"
  shows "length rest < length s"
proof -
  let ?sgn = "if prefix [45] s then [45::int] else []"
  let ?tail = "drop (length ?sgn) s"
  from assms obtain d s2 where s1: "?tail = d # s2"
    by (cases ?tail) (auto simp: scan_number_def Let_def)
  let ?ip = "if d = 48 then [d] else d # takeWhile is_digit s2"
  obtain fr s3 where fr: "scan_fraction (drop (length ?ip) ?tail) = (fr, s3)"
    by (cases "scan_fraction (drop (length ?ip) ?tail)") auto
  obtain ex s4 where ex: "scan_exponent s3 = (ex, s4)"
    by (cases "scan_exponent s3") auto
  from assms s1 fr ex have "rest = s4"
    by (auto simp: scan_number_def Let_def split: if_splits)
  moreover have "length s4 \<le> length s3"
    using ex by (rule scan_exponent_length)
  ultimately have "length rest \<le> length s3"
    by simp
  also have "length s3 \<le> length (drop (length ?ip) ?tail)"
    using fr by (rule scan_fraction_length)
  also have "length (drop (length ?ip) ?tail) < length ?tail"
    using s1 by (simp split: if_splits)
  also have "length ?tail \<le> length s"
    by simp
  finally show ?thesis .
qed

lemma parse_shorter:
  "parse_value n d m s = Parsed v rest \<Longrightarrow> length rest < length s"
  "parse_items n d m s = Parsed vs rest' \<Longrightarrow> length rest' < length s"
  "parse_members n d m s = Parsed ms rest'' \<Longrightarrow> length rest'' < length s"
proof (induction n d m s and n d m s and n d m s
    arbitrary: v rest and vs rest' and ms rest''
    rule: parse_value_parse_items_parse_members.induct)
  case (1 depth max_str_digits s)
  then show ?case by simp
next
  case (2 n depth max_str_digits s)
  from 2(3) obtain c r where s: "s = c # r"
    by (cases s) auto
  have le: "length (skip_ws r) \<le> length r"
    by (rule skip_ws_length)
  consider (str) "c = 34" | (obj) "c \<noteq> 34" "c = 123" | (arr) "c \<noteq> 34" "c \<noteq> 123" "c = 91"
    | (other) "c \<noteq> 34" "c \<noteq> 123" "c \<noteq> 91"
    by blast
  then show ?case
  proof cases
    case str
    with 2(3) s obtain body where "scan_string r = Some (body, rest)"
      by (auto split: option.splits)
    from scan_string_shorter[OF this] s show ?thesis by simp
  next
    case obj
    show ?thesis
    proof (cases "depth = 0 \<or> prefix [125] (skip_ws r)")
      case True
      with 2(3) s obj le show ?thesis
        by (cases "skip_ws r") (auto split: if_splits)
    next
      case False
      with 2(3) s obj obtain ms where "parse_members n (depth - 1) max_str_digits (skip_ws r)
          = Parsed ms rest"
        by (auto split: outcome.splits)
      from 2(1)[OF s obj(1) obj(2) _ _ this] False le s show ?thesis by simp
    qed
  next
    case arr
    show ?thesis
    proof (cases "depth = 0 \<or> prefix [93] (skip_ws r)")
      case True
      with 2(3) s arr le show ?thesis
        by (cases "skip_ws r") (auto split: if_splits)
    next
      case False
      with 2(3) s arr obtain vs where "parse_items n (depth - 1) max_str_digits (skip_ws r)
          = Parsed vs rest"
        by (auto split: outcome.splits)
      from 2(2)[OF s arr(1) arr(2) arr(3) _ _ this] False le s show ?thesis by simp
    qed
  next
    case other
    have num: "length rest < length s" if "scan_number max_str_digits s = Some (Inr (t, rest))" for t
      using scan_number_shorter[OF that] .
    from 2(3) s other num show ?thesis
      by (auto simp: codes_def split: if_splits option.splits sum.splits)
  qed
next
  case (3 depth max_str_digits s)
  then show ?case by simp
next
  case (4 n depth max_str_digits s)
  from 4(3) obtain v r where v: "parse_value n depth max_str_digits s = Parsed v r"
    by (auto split: outcome.splits)
  from 4(1)[OF v] have rs: "length r < length s" .
  from 4(3) v obtain c r' where c: "skip_ws r = c # r'"
    by (cases "skip_ws r") auto
  have r': "length r' < length r"
    using skip_ws_length[of r] c by simp
  show ?case
  proof (cases "c = 93")
    case True
    with 4(3) v c rs r' show ?thesis by simp
  next
    case False
    with 4(3) v c obtain vs' where c44: "c = 44"
        and rec: "parse_items n depth max_str_digits (skip_ws r') = Parsed vs' rest'"
      by (auto split: if_splits outcome.splits)
    from 4(2)[OF v c False c44 rec] skip_ws_length[of r'] rs r' show ?thesis by simp
  qed
next
  case (5 depth max_str_digits s)
  then show ?case by simp
next
  case (6 n depth max_str_digits s)
  from 6(3) obtain q r where s: "s = q # r"
    by (cases s) auto
  from 6(3) s have q: "\<not> q \<noteq> 34"
    by (auto split: if_splits)
  from 6(3) s q obtain k r1 where k: "scan_string r = Some (k, r1)"
    by (auto split: option.splits)
  from 6(3) s q k have colon: "\<not> \<not> prefix [58] (skip_ws r1)"
    by (auto split: if_splits)
  let ?t = "skip_ws (tl (skip_ws r1))"
  from 6(3) s q k colon obtain v r2 where v: "parse_value n depth max_str_digits ?t = Parsed v r2"
    by (auto split: outcome.splits)
  from 6(3) s q k colon v obtain c r3 where c: "skip_ws r2 = c # r3"
    by (cases "skip_ws r2") auto
  have "length ?t \<le> length r1"
    using skip_ws_length[of "tl (skip_ws r1)"] skip_ws_length[of r1] by simp
  moreover have "length r1 < length r"
    using k by (rule scan_string_shorter)
  moreover have "length r2 < length ?t"
    using 6(1)[OF s q k refl colon v] .
  moreover have "length r3 < length r2"
    using skip_ws_length[of r2] c by simp
  ultimately have r3: "length r3 < length s"
    using s by simp
  show ?case
  proof (cases "c = 125")
    case True
    with 6(3) s q k colon v c r3 show ?thesis by simp
  next
    case False
    with 6(3) s q k colon v c obtain ms' where c44: "c = 44"
        and rec: "parse_members n depth max_str_digits (skip_ws r3) = Parsed ms' rest''"
      by (auto split: if_splits outcome.splits)
    from 6(2)[OF s q k refl colon v c False c44 rec] skip_ws_length[of r3] r3 show ?thesis by simp
  qed
qed

lemma parse_fuel:
  "2 * length s < n \<Longrightarrow> parse_value n d m s \<noteq> NoFuel"
  "2 * length s + 1 < n \<Longrightarrow> parse_items n d m s \<noteq> NoFuel"
  "2 * length s + 1 < n \<Longrightarrow> parse_members n d m s \<noteq> NoFuel"
proof (induction n d m s and n d m s and n d m s
    rule: parse_value_parse_items_parse_members.induct)
  case (1 depth max_str_digits s)
  then show ?case by simp
next
  case (2 n depth max_str_digits s)
  show ?case
  proof (cases s)
    case Nil
    then show ?thesis by simp
  next
    case (Cons c r)
    have le: "2 * length (skip_ws r) + 1 < n"
      using skip_ws_length[of r] 2(3) Cons by simp
    have obj: "parse_members n (depth - 1) max_str_digits (skip_ws r) \<noteq> NoFuel"
      if "c \<noteq> 34" "c = 123" "depth \<noteq> 0" "\<not> prefix [125] (skip_ws r)"
      using 2(1)[OF Cons that le] .
    have arr: "parse_items n (depth - 1) max_str_digits (skip_ws r) \<noteq> NoFuel"
      if "c \<noteq> 34" "c \<noteq> 123" "c = 91" "depth \<noteq> 0" "\<not> prefix [93] (skip_ws r)"
      using 2(2)[OF Cons that le] .
    from Cons obj arr show ?thesis
      by (auto split: option.splits sum.splits outcome.splits)
  qed
next
  case (3 depth max_str_digits s)
  then show ?case by simp
next
  case (4 n depth max_str_digits s)
  have v: "parse_value n depth max_str_digits s \<noteq> NoFuel"
    using 4(1) 4(3) by simp
  have rec: "parse_items n depth max_str_digits (skip_ws r') \<noteq> NoFuel"
    if "parse_value n depth max_str_digits s = Parsed x r" "skip_ws r = c # r'" "c \<noteq> 93" "c = 44"
    for x r c r'
  proof -
    have "length r < length s"
      using that(1) by (rule parse_shorter(1))
    moreover have "length (skip_ws r') \<le> length r'"
      by (rule skip_ws_length)
    moreover have "length r' < length r"
      using skip_ws_length[of r] that(2) by simp
    ultimately have "2 * length (skip_ws r') + 1 < n"
      using 4(3) by simp
    with 4(2)[OF that] show ?thesis .
  qed
  from v rec show ?case
    by (auto split: outcome.splits list.splits)
next
  case (5 depth max_str_digits s)
  then show ?case by simp
next
  case (6 n depth max_str_digits s)
  show ?case
  proof (cases s)
    case Nil
    then show ?thesis by simp
  next
    case (Cons q r)
    have val: "parse_value n depth max_str_digits (skip_ws (tl (skip_ws r1))) \<noteq> NoFuel"
      if "\<not> q \<noteq> 34" "scan_string r = Some (k, r1)" "\<not> \<not> prefix [58] (skip_ws r1)" for k r1
    proof -
      have "length r1 < length r"
        using that(2) by (rule scan_string_shorter)
      moreover have "length (skip_ws (tl (skip_ws r1))) \<le> length r1"
        using skip_ws_length[of "tl (skip_ws r1)"] skip_ws_length[of r1] by simp
      ultimately have "2 * length (skip_ws (tl (skip_ws r1))) < n"
        using 6(3) Cons by simp
      with 6(1)[OF Cons that(1) that(2) refl that(3)] show ?thesis .
    qed
    have rec: "parse_members n depth max_str_digits (skip_ws r3) \<noteq> NoFuel"
      if "\<not> q \<noteq> 34" "scan_string r = Some (k, r1)" "\<not> \<not> prefix [58] (skip_ws r1)"
        "parse_value n depth max_str_digits (skip_ws (tl (skip_ws r1))) = Parsed v r2"
        "skip_ws r2 = c # r3" "c \<noteq> 125" "c = 44"
      for k r1 v r2 c r3
    proof -
      have "length r1 < length r"
        using that(2) by (rule scan_string_shorter)
      moreover have "length (skip_ws (tl (skip_ws r1))) \<le> length r1"
        using skip_ws_length[of "tl (skip_ws r1)"] skip_ws_length[of r1] by simp
      moreover have "length r2 < length (skip_ws (tl (skip_ws r1)))"
        using that(4) by (rule parse_shorter(1))
      moreover have "length r3 < length r2"
        using skip_ws_length[of r2] that(5) by simp
      moreover have "length (skip_ws r3) \<le> length r3"
        by (rule skip_ws_length)
      ultimately have "2 * length (skip_ws r3) + 1 < n"
        using 6(3) Cons by simp
      with 6(2)[OF Cons that(1) that(2) refl that(3) that(4) that(5) that(6) that(7)]
      show ?thesis .
    qed
    from Cons val rec show ?thesis
      by (auto split: option.splits outcome.splits list.splits)
  qed
qed

lemma json_loads_fuel: "parse_value (2 * length s + 2) d m (skip_ws s) \<noteq> NoFuel"
  using skip_ws_length[of s] by (intro parse_fuel(1)) simp

section \<open>The repair and retry ladder\<close>





text \<open>
  Claim C7. The truncated example does not parse as it is; the repair closes the
  string with a quote, the object with a brace and the array with a bracket, and the
  result parses to an array of one record with both fields. This holds whenever the
  interpreter allows two levels of nesting, whatever its limit on digits.
\<close>

theorem repair_truncated_example:
  \<open>json_loads (Suc (Suc depth)) max_str_digits
       (codes ''[{"date":"2025-01-01","description":"X'') = Inl JSONDecodeError
   \<and> try_fix_truncated_json (codes ''[{"date":"2025-01-01","description":"X'')
       = codes ''[{"date":"2025-01-01","description":"X'' @ [34] @ [125] @ [93]
   \<and> json_loads (Suc (Suc depth)) max_str_digits
       (try_fix_truncated_json (codes ''[{"date":"2025-01-01","description":"X''))
       = Inr (JArr [JObj [(codes ''date'', JStr (codes ''2025-01-01'')),
                          (codes ''description'', JStr (codes ''X''))]])\<close>
  by code_simp

section \<open>The adapters\<close>

lemma read_csv_not_exhausted: "read_csv utf8 cp1252 parse encoding raw \<noteq> Inl CouldNotRead"
  by (simp add: read_csv_def split: option.splits)

lemma read_first_encoding_error:
  "read_first_encoding rd encs = Inl e \<Longrightarrow> \<exists>encoding. rd encoding = Inl e"
  by (induction encs) (auto split: sum.splits if_splits)

lemma read_csv_latin1:
  "read_csv utf8 cp1252 parse Latin1 raw \<noteq> Inl UnicodeDecodeError"
  by (simp add: read_csv_def split: option.splits)

lemma read_first_encoding_found:
  "read_first_encoding (\<lambda>encoding. read_csv utf8 cp1252 parse encoding raw) encodings \<noteq> Inr None"
  using read_csv_latin1[of utf8 cp1252 parse raw]
  by (auto simp: encodings_def split: sum.splits)

lemma read_any_encoding_not_exhausted:
  "read_any_encoding (\<lambda>encoding. read_csv utf8 cp1252 parse encoding raw) \<noteq> Inl CouldNotRead"
proof
  let ?rd = "\<lambda>encoding. read_csv utf8 cp1252 parse encoding raw"
  assume a: "read_any_encoding ?rd = Inl CouldNotRead"
  show False
  proof (cases "read_first_encoding ?rd encodings")
    case (Inl e)
    with a have "e = CouldNotRead" by (simp add: read_any_encoding_def)
    with Inl read_first_encoding_error[of ?rd encodings e] show False
      by (auto simp: read_csv_not_exhausted)
  next
    case (Inr d)
    with read_first_encoding_found[of utf8 cp1252 parse raw] obtain df where "d = Some df"
      by (cases d) auto
    with Inr a show False by (simp add: read_any_encoding_def)
  qed
qed

text \<open>
  Claim C10. No adapter reaches the branch that raises \<open>Could not read ... with any
  encoding\<close>: Latin-1 is among the candidates and decodes every byte sequence, so the
  loop never ends with the frame unset.
\<close>

theorem encoding_fallback_never_exhausted:
  "load_capital_one utf8 cp1252 parse_co strptime strftime file_name raw \<noteq> Inl CouldNotRead
   \<and> load_discover utf8 cp1252 parse_dc strptime strftime file_name raw \<noteq> Inl CouldNotRead
   \<and> load_chase utf8 cp1252 parse_ch raw \<noteq> Inl CouldNotRead
   \<and> read_first_encoding (\<lambda>encoding. read_csv utf8 cp1252 parse encoding raw) encodings
       \<noteq> Inr None"
  using read_any_encoding_not_exhausted[of utf8 cp1252 parse_co raw]
    read_any_encoding_not_exhausted[of utf8 cp1252 parse_dc raw]
    read_any_encoding_not_exhausted[of utf8 cp1252 parse_ch raw]
    read_first_encoding_found[of utf8 cp1252 parse raw]
  by (auto simp: load_capital_one_def load_discover_def load_chase_def split: sum.splits)

text \<open>
  Claim C9, as stated, fails on two adapters. The Chase adapter copies the amount column
  without a filter, and the CapitalOne adapter keeps every row whose debit cell is not
  empty: a negative amount in either file comes out as it went in.
\<close>

theorem adapters_keep_negative_amounts:
  "load_chase ascii_decoder ascii_decoder read_chase_file chase_file =
     Inr [\<lparr>date = codes ''2025-01-05'', description = Some (codes ''AMAZON REFUND''),
           amount = Some (-25), category = Some (codes ''Other''),
           card = codes ''Chase-2040'', source = codes ''stmt.pdf'', label = None\<rparr>]
   \<and> \<not> (0::real) < -25
   \<and> load_capital_one ascii_decoder ascii_decoder read_capital_one_file sample_strptime
       sample_strftime (codes ''CapitalOne-2025.csv'') capital_one_file =
     Inr [\<lparr>date = codes ''2025-03-01'', description = Some (codes ''SHELL OIL 12345''),
           amount = Some 12.5, category = Some (codes ''Gas/Automotive''),
           card = codes ''CapitalOne'', source = codes ''CapitalOne-2025.csv'',
           label = None\<rparr>,
          \<lparr>date = codes ''2025-03-06'', description = Some (codes ''MERCHANT ADJUSTMENT''),
           amount = Some (-5), category = Some (codes ''Other''),
           card = codes ''CapitalOne'', source = codes ''CapitalOne-2025.csv'',
           label = None\<rparr>]
   \<and> \<not> (0::real) < -5"
  by code_simp

text \<open>
  Claim C9, amended. The Discover adapter keeps exactly the rows with a strictly positive
  amount whose category is neither \<open>Payments and Credits\<close> nor
  \<open>Awards and Rebate Credits\<close>, so each of its records has both properties. The
  CapitalOne adapter keeps exactly the rows whose debit is present, so each of its
  records has an amount, of either sign. The Chase adapter keeps every row: its amounts
  are the amount column of the file.
\<close>

theorem adapter_amounts:
  "(load_discover utf cp parse_dc strptime strftime file_dc raw_dc = Inr recs_dc
      \<longrightarrow> (\<forall>r\<in>set recs_dc. (\<exists>a. amount r = Some a \<and> 0 < a)
              \<and> category r \<noteq> Some (codes ''Payments and Credits'')
              \<and> category r \<noteq> Some (codes ''Awards and Rebate Credits''))
          \<and> (\<exists>df. read_any_encoding (\<lambda>encoding. read_csv utf cp parse_dc encoding raw_dc)
                    = Inr df
                \<and> map (\<lambda>r. (amount r, category r)) recs_dc
                    = filter (\<lambda>(a, c). (\<exists>x. a = Some x \<and> 0 < x)
                          \<and> c \<noteq> Some (codes ''Payments and Credits'')
                          \<and> c \<noteq> Some (codes ''Awards and Rebate Credits''))
                        (map (\<lambda>row. (dc_amount row, dc_category row)) df)))
   \<and> (load_capital_one utf cp parse_co strptime strftime file_co raw_co = Inr recs_co
      \<longrightarrow> (\<forall>r\<in>set recs_co. amount r \<noteq> None)
          \<and> (\<exists>df. read_any_encoding (\<lambda>encoding. read_csv utf cp parse_co encoding raw_co)
                    = Inr df
                \<and> map amount recs_co = filter (\<lambda>a. a \<noteq> None) (map co_debit df)))
   \<and> (load_chase utf cp parse_ch raw_ch = Inr recs_ch
      \<longrightarrow> (\<exists>df. read_any_encoding (\<lambda>encoding. read_csv utf cp parse_ch encoding raw_ch)
                  = Inr df
                \<and> map amount recs_ch = map ch_amount df))"
proof -
  have keep: "(\<lambda>row. \<not> category_isin [''Payments and Credits'', ''Awards and Rebate Credits''] row)
      = (\<lambda>row. dc_category row \<noteq> Some (codes ''Payments and Credits'')
            \<and> dc_category row \<noteq> Some (codes ''Awards and Rebate Credits''))"
    by (auto simp: category_isin_def fun_eq_iff split: option.splits)
  have pos: "amount_positive = (\<lambda>row. \<exists>x. dc_amount row = Some x \<and> 0 < x)"
    by (auto simp: amount_positive_def fun_eq_iff split: option.splits)
  have dc: "load_discover utf cp parse_dc strptime strftime file_dc raw_dc = Inr recs_dc
      \<longrightarrow> (\<forall>r\<in>set recs_dc. (\<exists>a. amount r = Some a \<and> 0 < a)
              \<and> category r \<noteq> Some (codes ''Payments and Credits'')
              \<and> category r \<noteq> Some (codes ''Awards and Rebate Credits''))
          \<and> (\<exists>df. read_any_encoding (\<lambda>encoding. read_csv utf cp parse_dc encoding raw_dc)
                    = Inr df
                \<and> map (\<lambda>r. (amount r, category r)) recs_dc
                    = filter (\<lambda>(a, c). (\<exists>x. a = Some x \<and> 0 < x)
                          \<and> c \<noteq> Some (codes ''Payments and Credits'')
                          \<and> c \<noteq> Some (codes ''Awards and Rebate Credits''))
                        (map (\<lambda>row. (dc_amount row, dc_category row)) df))"
    by (auto simp: load_discover_def keep pos filter_map comp_def split: sum.splits)
  have co: "load_capital_one utf cp parse_co strptime strftime file_co raw_co = Inr recs_co
      \<longrightarrow> (\<forall>r\<in>set recs_co. amount r \<noteq> None)
          \<and> (\<exists>df. read_any_encoding (\<lambda>encoding. read_csv utf cp parse_co encoding raw_co)
                    = Inr df
                \<and> map amount recs_co = filter (\<lambda>a. a \<noteq> None) (map co_debit df))"
    by (auto simp: load_capital_one_def filter_map comp_def split: sum.splits)
  have ch: "load_chase utf cp parse_ch raw_ch = Inr recs_ch
      \<longrightarrow> (\<exists>df. read_any_encoding (\<lambda>encoding. read_csv utf cp parse_ch encoding raw_ch)
                  = Inr df
                \<and> map amount recs_ch = map ch_amount df)"
    by (auto simp: load_chase_def split: sum.splits)
  from dc co ch show ?thesis by blast
qed

theorem adapter_amounts_witness:
  "load_discover ascii_decoder ascii_decoder read_discover_file sample_strptime sample_strftime
       (codes ''Discover-2025.csv'') discover_file =
     Inr [\<lparr>date = codes ''2025-03-02'', description = Some (codes ''NETFLIX.COM''),
           amount = Some 15.99, category = Some (codes ''Entertainment''),
           card = codes ''Discover'', source = codes ''Discover-2025.csv'', label = None\<rparr>]
   \<and> (\<exists>a. Some (15.99::real) = Some a \<and> 0 < a)
   \<and> load_capital_one ascii_decoder ascii_decoder read_capital_one_file sample_strptime
       sample_strftime (codes ''CapitalOne-2025.csv'') capital_one_file =
     Inr [\<lparr>date = codes ''2025-03-01'', description = Some (codes ''SHELL OIL 12345''),
           amount = Some 12.5, category = Some (codes ''Gas/Automotive''),
           card = codes ''CapitalOne'', source = codes ''CapitalOne-2025.csv'',
           label = None\<rparr>,
          \<lparr>date = codes ''2025-03-06'', description = Some (codes ''MERCHANT ADJUSTMENT''),
           amount = Some (-5), category = Some (codes ''Other''),
           card = codes ''CapitalOne'', source = codes ''CapitalOne-2025.csv'',
           label = None\<rparr>]
   \<and> load_chase ascii_decoder ascii_decoder read_chase_file chase_file =
     Inr [\<lparr>date = codes ''2025-01-05'', description = Some (codes ''AMAZON REFUND''),
           amount = Some (-25), category = Some (codes ''Other''),
           card = codes ''Chase-2040'', source = codes ''stmt.pdf'', label = None\<rparr>]
   \<and> (\<exists>df. read_any_encoding
          (\<lambda>encoding. read_csv ascii_decoder ascii_decoder read_chase_file encoding chase_file)
          = Inr df
        \<and> [Some (-25::real)] = map ch_amount df)"
proof -
  let ?netflix = "\<lparr>date = codes ''2025-03-02'', description = Some (codes ''NETFLIX.COM''),
      amount = Some (15.99::real), category = Some (codes ''Entertainment''),
      card = codes ''Discover'', source = codes ''Discover-2025.csv'',
      label = None :: ustr option\<rparr>"
  let ?shell = "\<lparr>date = codes ''2025-03-01'', description = Some (codes ''SHELL OIL 12345''),
      amount = Some (12.5::real), category = Some (codes ''Gas/Automotive''),
      card = codes ''CapitalOne'', source = codes ''CapitalOne-2025.csv'',
      label = None :: ustr option\<rparr>"
  let ?adjust = "\<lparr>date = codes ''2025-03-06'', description = Some (codes ''MERCHANT ADJUSTMENT''),
      amount = Some (-5::real), category = Some (codes ''Other''),
      card = codes ''CapitalOne'', source = codes ''CapitalOne-2025.csv'',
      label = None :: ustr option\<rparr>"
  let ?refund = "\<lparr>date = codes ''2025-01-05'', description = Some (codes ''AMAZON REFUND''),
      amount = Some (-25::real), category = Some (codes ''Other''),
      card = codes ''Chase-2040'', source = codes ''stmt.pdf'', label = None :: ustr option\<rparr>"
  have d: "load_discover ascii_decoder ascii_decoder read_discover_file sample_strptime
      sample_strftime (codes ''Discover-2025.csv'') discover_file = Inr [?netflix]"
    by code_simp
  have c: "load_capital_one ascii_decoder ascii_decoder read_capital_one_file sample_strptime
      sample_strftime (codes ''CapitalOne-2025.csv'') capital_one_file = Inr [?shell, ?adjust]"
    by code_simp
  have h: "load_chase ascii_decoder ascii_decoder read_chase_file chase_file = Inr [?refund]"
    by code_simp
  have "(\<exists>a. amount ?netflix = Some a \<and> 0 < a)
      \<and> (\<exists>df. read_any_encoding
            (\<lambda>encoding. read_csv ascii_decoder ascii_decoder read_chase_file encoding chase_file)
            = Inr df
          \<and> map amount [?refund] = map ch_amount df)"
    using adapter_amounts[where utf = ascii_decoder and cp = ascii_decoder
        and parse_dc = read_discover_file and strptime = sample_strptime
        and strftime = sample_strftime and file_dc = "codes ''Discover-2025.csv''"
        and raw_dc = discover_file and recs_dc = "[?netflix]"
        and parse_co = read_capital_one_file and file_co = "codes ''CapitalOne-2025.csv''"
        and raw_co = capital_one_file and recs_co = "[?shell, ?adjust]"
        and parse_ch = read_chase_file and raw_ch = chase_file and recs_ch = "[?refund]"]
      d c h
    by (simp del: One_nat_def)
  with d c h show ?thesis by simp
qed

end
